theory Spec2Isabelle
  imports Main
begin

section \<open>Errors and formatted messages\<close>

text \<open>
  The Go code builds its messages with \<^verbatim>\<open>fmt.Errorf\<close>, \<^verbatim>\<open>errors.Wrapf\<close> and the
  logger's \<^verbatim>\<open>Infof\<close>/\<^verbatim>\<open>Debugf\<close>. A message is kept as the format string of the source
  together with the list of its arguments, so that every message of the model can be
  compared literally with the call in the source.
\<close>

datatype arg = S string | N nat | SL "string list"

text \<open>
  The error numbers the code tells apart: \<^verbatim>\<open>os.IsNotExist\<close>, \<^verbatim>\<open>os.IsExist\<close>, and any
  other failure of a system call.
\<close>

datatype errno = ENOENT | EEXIST | EOTHER nat

text \<open>
  Modelled from the spec: the error value \<^verbatim>\<open>errCacheCommitted\<close> of the cache package is
  declared outside the given sources; the spec names it \<^verbatim>\<open>ErrCacheCommitted\<close>, the
  error of a mutation after the commit. The other errors are the error of a system
  call (\<open>Sys\<close>), an error returned by the image, the layer factory or a decoder
  (\<open>Ext\<close>), \<^verbatim>\<open>fmt.Errorf\<close>, \<^verbatim>\<open>errors.Wrap\<close> and \<^verbatim>\<open>errors.Wrapf\<close>, and a Go panic.
\<close>

datatype error =
    ErrCacheCommitted
  | Sys errno
  | Ext string
  | Errorf string "arg list"
  | Wrap error string "arg list"
  | Panic string

text \<open>The quote character, for format strings that end with one.\<close>

abbreviation (input) sq :: string where
  "sq \<equiv> [CHR 0x27]"

definition IsNotExist :: "errno \<Rightarrow> bool" where
  "IsNotExist e = (e = ENOENT)"

definition IsExist :: "errno \<Rightarrow> bool" where
  "IsExist e = (e = EEXIST)"

section \<open>The file system under the cache root\<close>

text \<open>
  The cache root holds up to three directories. A directory maps file names to inodes
  and the inode table holds the bytes, because \<^verbatim>\<open>os.Link\<close> makes two names share one
  file and \<^verbatim>\<open>os.Create\<close> truncates an existing file in place. Files outside the root
  (the tarballs handed to \<^verbatim>\<open>AddLayerFile\<close>) are a separate map from paths to bytes.
  Every system call takes the failure the environment forces on it: \<open>Some n\<close> makes
  the call fail with the error number \<open>EOTHER n\<close> (an input/output error, a missing
  permission), \<open>None\<close> lets it run, and it can then only fail for a reason visible in
  the state (\<open>ENOENT\<close>, \<open>EEXIST\<close>).
  Digests are taken to contain no path separator, so that a layer file is a direct
  child of its directory. A forced failure of a rename or removal leaves the
  directories as they were.
\<close>

type_synonym content = string

type_synonym inode = nat

type_synonym directory = "string \<rightharpoonup> inode"

datatype dirname = Staging | Committed | Backup

record filesys =
  windows :: bool
  root :: bool
  staging :: "directory option"
  committedD :: "directory option"
  backup :: "directory option"
  outside :: "string \<rightharpoonup> content"
  inodes :: "inode \<Rightarrow> content"
  fresh :: inode

fun get_dir :: "dirname \<Rightarrow> filesys \<Rightarrow> directory option" where
  "get_dir Staging fs = staging fs"
| "get_dir Committed fs = committedD fs"
| "get_dir Backup fs = backup fs"

fun set_dir :: "dirname \<Rightarrow> directory option \<Rightarrow> filesys \<Rightarrow> filesys" where
  "set_dir Staging d fs = fs\<lparr>staging := d\<rparr>"
| "set_dir Committed d fs = fs\<lparr>committedD := d\<rparr>"
| "set_dir Backup d fs = fs\<lparr>backup := d\<rparr>"

text \<open>The bytes a path inside the root reads, when the file exists.\<close>

definition file_content :: "dirname \<Rightarrow> string \<Rightarrow> filesys \<Rightarrow> content option" where
  "file_content dn name fs =
     (case get_dir dn fs of
        None \<Rightarrow> None
      | Some d \<Rightarrow> (case d name of None \<Rightarrow> None | Some i \<Rightarrow> Some (inodes fs i)))"

type_synonym fault = "nat option"

text \<open>A copy that fails has written a prefix of its data: \<open>Some (n, k)\<close> fails with
  \<open>EOTHER k\<close> after \<open>n\<close> bytes.\<close>

type_synonym wfault = "(nat \<times> nat) option"

definition os_Stat_root :: "fault \<Rightarrow> filesys \<Rightarrow> errno option" where
  "os_Stat_root f fs =
     (case f of Some n \<Rightarrow> Some (EOTHER n)
      | None \<Rightarrow> if root fs then None else Some ENOENT)"

definition os_Stat_dir :: "fault \<Rightarrow> dirname \<Rightarrow> filesys \<Rightarrow> errno option" where
  "os_Stat_dir f dn fs =
     (case f of Some n \<Rightarrow> Some (EOTHER n)
      | None \<Rightarrow> (case get_dir dn fs of None \<Rightarrow> Some ENOENT | Some d \<Rightarrow> None))"

definition os_Stat :: "fault \<Rightarrow> dirname \<Rightarrow> string \<Rightarrow> filesys \<Rightarrow> errno option" where
  "os_Stat f dn name fs =
     (case f of Some n \<Rightarrow> Some (EOTHER n)
      | None \<Rightarrow>
         (case get_dir dn fs of
            None \<Rightarrow> Some ENOENT
          | Some d \<Rightarrow> (case d name of None \<Rightarrow> Some ENOENT | Some i \<Rightarrow> None)))"

text \<open>\<^verbatim>\<open>os.Create\<close>: the file is created empty, or truncated when it exists.\<close>

definition os_Create :: "fault \<Rightarrow> dirname \<Rightarrow> string \<Rightarrow> filesys \<Rightarrow> (errno + inode) \<times> filesys" where
  "os_Create f dn name fs =
     (case f of Some n \<Rightarrow> (Inl (EOTHER n), fs)
      | None \<Rightarrow>
         (case get_dir dn fs of
            None \<Rightarrow> (Inl ENOENT, fs)
          | Some d \<Rightarrow>
             (case d name of
                Some i \<Rightarrow> (Inr i, fs\<lparr>inodes := (inodes fs)(i := [])\<rparr>)
              | None \<Rightarrow>
                 (Inr (fresh fs),
                  set_dir dn (Some (d(name \<mapsto> fresh fs)))
                    (fs\<lparr>inodes := (inodes fs)(fresh fs := []), fresh := Suc (fresh fs)\<rparr>)))))"

definition os_Open :: "fault \<Rightarrow> dirname \<Rightarrow> string \<Rightarrow> filesys \<Rightarrow> errno + content" where
  "os_Open f dn name fs =
     (case f of Some n \<Rightarrow> Inl (EOTHER n)
      | None \<Rightarrow> (case file_content dn name fs of None \<Rightarrow> Inl ENOENT | Some bs \<Rightarrow> Inr bs))"

definition os_Open_outside :: "fault \<Rightarrow> string \<Rightarrow> filesys \<Rightarrow> errno + content" where
  "os_Open_outside f path fs =
     (case f of Some n \<Rightarrow> Inl (EOTHER n)
      | None \<Rightarrow> (case outside fs path of None \<Rightarrow> Inl ENOENT | Some bs \<Rightarrow> Inr bs))"

definition io_Copy :: "wfault \<Rightarrow> inode \<Rightarrow> content \<Rightarrow> filesys \<Rightarrow> errno option \<times> filesys" where
  "io_Copy cf i bs fs =
     (case cf of
        None \<Rightarrow> (None, fs\<lparr>inodes := (inodes fs)(i := inodes fs i @ bs)\<rparr>)
      | Some (n, k) \<Rightarrow> (Some (EOTHER k), fs\<lparr>inodes := (inodes fs)(i := inodes fs i @ take n bs)\<rparr>))"

text \<open>\<^verbatim>\<open>os.Link\<close> from a file of one directory to the same name in another: the source
  is looked up first, an existing destination is \<^verbatim>\<open>EEXIST\<close>.\<close>

definition os_Link :: "fault \<Rightarrow> dirname \<Rightarrow> dirname \<Rightarrow> string \<Rightarrow> filesys \<Rightarrow> errno option \<times> filesys" where
  "os_Link f src dst name fs =
     (case f of Some n \<Rightarrow> (Some (EOTHER n), fs)
      | None \<Rightarrow>
         (case get_dir src fs of
            None \<Rightarrow> (Some ENOENT, fs)
          | Some sd \<Rightarrow>
             (case sd name of
                None \<Rightarrow> (Some ENOENT, fs)
              | Some i \<Rightarrow>
                 (case get_dir dst fs of
                    None \<Rightarrow> (Some ENOENT, fs)
                  | Some dd \<Rightarrow>
                     (case dd name of
                        Some j \<Rightarrow> (Some EEXIST, fs)
                      | None \<Rightarrow> (None, set_dir dst (Some (dd(name \<mapsto> i))) fs))))))"

text \<open>\<^verbatim>\<open>os.Rename\<close> of a directory: Go refuses a destination that is an existing
  directory.\<close>

definition os_Rename :: "fault \<Rightarrow> dirname \<Rightarrow> dirname \<Rightarrow> filesys \<Rightarrow> errno option \<times> filesys" where
  "os_Rename f old new fs =
     (case f of Some n \<Rightarrow> (Some (EOTHER n), fs)
      | None \<Rightarrow>
         (case get_dir old fs of
            None \<Rightarrow> (Some ENOENT, fs)
          | Some d \<Rightarrow>
             (case get_dir new fs of
                Some d' \<Rightarrow> (Some EEXIST, fs)
              | None \<Rightarrow> (None, set_dir old None (set_dir new (Some d) fs)))))"

definition os_RemoveAll :: "fault \<Rightarrow> dirname \<Rightarrow> filesys \<Rightarrow> errno option \<times> filesys" where
  "os_RemoveAll f dn fs =
     (case f of Some n \<Rightarrow> (Some (EOTHER n), fs) | None \<Rightarrow> (None, set_dir dn None fs))"

definition os_MkdirAll :: "fault \<Rightarrow> dirname \<Rightarrow> filesys \<Rightarrow> errno option \<times> filesys" where
  "os_MkdirAll f dn fs =
     (case f of Some n \<Rightarrow> (Some (EOTHER n), fs)
      | None \<Rightarrow>
         (case get_dir dn fs of
            Some d \<Rightarrow> (None, fs)
          | None \<Rightarrow> (None, set_dir dn (Some Map.empty) fs)))"

section \<open>The volume cache\<close>

record VolumeCache =
  committed :: bool
  dir :: string

definition Join :: "string \<Rightarrow> string \<Rightarrow> string" where
  "Join a b = a @ ''/'' @ b"

definition backupDir :: "VolumeCache \<Rightarrow> string" where
  "backupDir c = Join (dir c) ''committed-backup''"

definition stagingDir :: "VolumeCache \<Rightarrow> string" where
  "stagingDir c = Join (dir c) ''staging''"

definition committedDir :: "VolumeCache \<Rightarrow> string" where
  "committedDir c = Join (dir c) ''committed''"

text \<open>Modelled from the spec: the constant \<^verbatim>\<open>MetadataLabel\<close> of the cache package
  is declared outside the given sources; the spec names the file
  \<^verbatim>\<open>staging/io.buildpacks.lifecycle.cache.metadata\<close>.\<close>

definition MetadataLabel :: string where
  "MetadataLabel = ''io.buildpacks.lifecycle.cache.metadata''"

definition TrimPrefix :: "string \<Rightarrow> string \<Rightarrow> string" where
  "TrimPrefix s p = (if take (length p) s = p then drop (length p) s else s)"

text \<open>\<^verbatim>\<open>diffIDPath\<close>: the name of a layer file inside its directory.\<close>

definition diffIDPath :: "filesys \<Rightarrow> string \<Rightarrow> string" where
  "diffIDPath fs diffID =
     (if windows fs then TrimPrefix diffID ''sha256:'' else diffID) @ ''.tar''"

type_synonym cache_world = "VolumeCache \<times> filesys"

definition setupStagingDir :: "fault \<Rightarrow> fault \<Rightarrow> filesys \<Rightarrow> errno option \<times> filesys" where
  "setupStagingDir f_rm f_mk fs =
     (case os_RemoveAll f_rm Staging fs of
        (Some e, fs1) \<Rightarrow> (Some e, fs1)
      | (None, fs1) \<Rightarrow> os_MkdirAll f_mk Staging fs1)"

definition NewVolumeCache ::
  "fault \<Rightarrow> fault \<Rightarrow> fault \<Rightarrow> fault \<Rightarrow> fault \<Rightarrow> string \<Rightarrow> filesys \<Rightarrow> (error + VolumeCache) \<times> filesys" where
  "NewVolumeCache f_stat f_rm f_mk f_rmb f_mkc d fs =
     (case os_Stat_root f_stat fs of
        Some e \<Rightarrow> (Inl (Sys e), fs)
      | None \<Rightarrow>
         (let c = \<lparr>committed = False, dir = d\<rparr> in
          case setupStagingDir f_rm f_mk fs of
            (Some e, fs1) \<Rightarrow>
              (Inl (Wrap (Sys e) (''initializing staging directory '%s'' @ sq) [S (stagingDir c)]), fs1)
          | (None, fs1) \<Rightarrow>
             (case os_RemoveAll f_rmb Backup fs1 of
                (Some e, fs2) \<Rightarrow>
                  (Inl (Wrap (Sys e) (''removing backup directory '%s'' @ sq) [S (backupDir c)]), fs2)
              | (None, fs2) \<Rightarrow>
                 (case os_MkdirAll f_mkc Committed fs2 of
                    (Some e, fs3) \<Rightarrow>
                      (Inl (Wrap (Sys e) (''creating committed directory '%s'' @ sq) [S (committedDir c)]), fs3)
                  | (None, fs3) \<Rightarrow> (Inr c, fs3)))))"

definition Exists :: "fault \<Rightarrow> cache_world \<Rightarrow> bool" where
  "Exists f w = (case os_Stat_dir f Committed (snd w) of Some e \<Rightarrow> False | None \<Rightarrow> True)"

definition Name :: "VolumeCache \<Rightarrow> string" where
  "Name c = dir c"

text \<open>
  \<^verbatim>\<open>SetMetadata\<close>. The metadata type and its JSON encoding belong to other packages:
  the encoder is a parameter, \<open>Inl\<close> when marshalling fails (nothing is written then).
\<close>

definition SetMetadata ::
  "('m \<Rightarrow> error + content) \<Rightarrow> fault \<Rightarrow> wfault \<Rightarrow> 'm \<Rightarrow> cache_world \<Rightarrow> error option \<times> cache_world" where
  "SetMetadata encode f_create f_write metadata w =
     (case w of (c, fs) \<Rightarrow>
        if committed c then (Some ErrCacheCommitted, c, fs)
        else
          (case os_Create f_create Staging MetadataLabel fs of
             (Inl e, fs1) \<Rightarrow>
               (Some (Wrap (Sys e) (''creating metadata file '%s'' @ sq) [S (Join (stagingDir c) MetadataLabel)]),
                c, fs1)
           | (Inr file, fs1) \<Rightarrow>
               (case encode metadata of
                  Inl err \<Rightarrow> (Some (Wrap err ''marshalling metadata'' []), c, fs1)
                | Inr bs \<Rightarrow>
                   (case io_Copy f_write file bs fs1 of
                      (Some e, fs2) \<Rightarrow> (Some (Wrap (Sys e) ''marshalling metadata'' []), c, fs2)
                    | (None, fs2) \<Rightarrow> (None, c, fs2)))))"

text \<open>
  \<^verbatim>\<open>RetrieveMetadata\<close>. The decoder is a parameter, \<open>None\<close> when the bytes do not
  decode; \<open>rd\<close> tells that reading the opened file failed, which the decoder reports
  as a decoding error too. \<open>zero\<close> is the empty record \<^verbatim>\<open>platform.CacheMetadata{}\<close>.
\<close>

definition RetrieveMetadata ::
  "(content \<Rightarrow> 'm option) \<Rightarrow> 'm \<Rightarrow> fault \<Rightarrow> bool \<Rightarrow> cache_world \<Rightarrow> error + 'm" where
  "RetrieveMetadata decode zero f_open rd w =
     (case w of (c, fs) \<Rightarrow>
        (case os_Open f_open Committed MetadataLabel fs of
           Inl e \<Rightarrow>
             if IsNotExist e then Inr zero
             else Inl (Wrap (Sys e) (''opening metadata file '%s'' @ sq) [S (Join (committedDir c) MetadataLabel)])
         | Inr bs \<Rightarrow>
             (case (if rd then None else decode bs) of
                None \<Rightarrow> Inr zero
              | Some metadata \<Rightarrow> Inr metadata)))"

definition copyFile ::
  "fault \<Rightarrow> fault \<Rightarrow> wfault \<Rightarrow> string \<Rightarrow> dirname \<Rightarrow> string \<Rightarrow> filesys \<Rightarrow> errno option \<times> filesys" where
  "copyFile f_open f_create f_copy from dn to fs =
     (case os_Open_outside f_open from fs of
        Inl e \<Rightarrow> (Some e, fs)
      | Inr bs \<Rightarrow>
         (case os_Create f_create dn to fs of
            (Inl e, fs1) \<Rightarrow> (Some e, fs1)
          | (Inr out, fs1) \<Rightarrow> io_Copy f_copy out bs fs1))"

definition AddLayerFile ::
  "fault \<Rightarrow> fault \<Rightarrow> fault \<Rightarrow> wfault \<Rightarrow> string \<Rightarrow> string \<Rightarrow> cache_world \<Rightarrow> error option \<times> cache_world" where
  "AddLayerFile f_stat f_open f_create f_copy tarPath diffID w =
     (case w of (c, fs) \<Rightarrow>
        if committed c then (Some ErrCacheCommitted, c, fs)
        else
          (case os_Stat f_stat Staging (diffIDPath fs diffID) fs of
             None \<Rightarrow> (None, c, fs)
           | Some e0 \<Rightarrow>
              (case copyFile f_open f_create f_copy tarPath Staging (diffIDPath fs diffID) fs of
                 (Some e, fs1) \<Rightarrow> (Some (Wrap (Sys e) ''caching layer (%s)'' [S diffID]), c, fs1)
               | (None, fs1) \<Rightarrow> (None, c, fs1))))"

definition AddLayer ::
  "fault \<Rightarrow> wfault \<Rightarrow> content \<Rightarrow> string \<Rightarrow> cache_world \<Rightarrow> error option \<times> cache_world" where
  "AddLayer f_create f_copy rc diffID w =
     (case w of (c, fs) \<Rightarrow>
        if committed c then (Some ErrCacheCommitted, c, fs)
        else
          (case os_Create f_create Staging (diffIDPath fs diffID) fs of
             (Inl e, fs1) \<Rightarrow> (Some (Wrap (Sys e) ''create layer file in cache'' []), c, fs1)
           | (Inr fh, fs1) \<Rightarrow>
              (case io_Copy f_copy fh rc fs1 of
                 (Some e, fs2) \<Rightarrow> (Some (Wrap (Sys e) ''copying layer to tar file'' []), c, fs2)
               | (None, fs2) \<Rightarrow> (None, c, fs2))))"

definition ReuseLayer :: "fault \<Rightarrow> string \<Rightarrow> cache_world \<Rightarrow> error option \<times> cache_world" where
  "ReuseLayer f_link diffID w =
     (case w of (c, fs) \<Rightarrow>
        if committed c then (Some ErrCacheCommitted, c, fs)
        else
          (case os_Link f_link Committed Staging (diffIDPath fs diffID) fs of
             (Some e, fs1) \<Rightarrow>
               if \<not> IsExist e then (Some (Wrap (Sys e) ''reusing layer (%s)'' [S diffID]), c, fs1)
               else (None, c, fs1)
           | (None, fs1) \<Rightarrow> (None, c, fs1)))"

definition RetrieveLayerFile :: "fault \<Rightarrow> string \<Rightarrow> cache_world \<Rightarrow> error + string" where
  "RetrieveLayerFile f_stat diffID w =
     (case w of (c, fs) \<Rightarrow>
        (case os_Stat f_stat Committed (diffIDPath fs diffID) fs of
           Some e \<Rightarrow>
             if IsNotExist e then Inl (Wrap (Sys e) ''layer with SHA '%s' not found'' [S diffID])
             else Inl (Wrap (Sys e) (''retrieving layer with SHA '%s'' @ sq) [S diffID])
         | None \<Rightarrow> Inr (Join (committedDir c) (diffIDPath fs diffID))))"

definition RetrieveLayer :: "fault \<Rightarrow> fault \<Rightarrow> string \<Rightarrow> cache_world \<Rightarrow> error + content" where
  "RetrieveLayer f_stat f_open diffID w =
     (case RetrieveLayerFile f_stat diffID w of
        Inl err \<Rightarrow> Inl err
      | Inr path \<Rightarrow>
         (case os_Open f_open Committed (diffIDPath (snd w) diffID) (snd w) of
            Inl e \<Rightarrow> Inl (Wrap (Sys e) (''opening layer with SHA '%s'' @ sq) [S diffID])
          | Inr bs \<Rightarrow> Inr bs))"

definition HasLayer :: "fault \<Rightarrow> string \<Rightarrow> cache_world \<Rightarrow> error + bool" where
  "HasLayer f_stat diffID w =
     (case w of (c, fs) \<Rightarrow>
        (case os_Stat f_stat Committed (diffIDPath fs diffID) fs of
           Some e \<Rightarrow>
             if IsNotExist e then Inr False
             else Inl (Wrap (Sys e) (''retrieving layer with SHA '%s'' @ sq) [S diffID])
         | None \<Rightarrow> Inr True))"

text \<open>
  \<^verbatim>\<open>Commit\<close>. The removal of the backup directory is deferred as soon as the first
  rename has succeeded, so it runs on every later return, and its own error is dropped.
\<close>

definition Commit :: "fault \<Rightarrow> fault \<Rightarrow> fault \<Rightarrow> fault \<Rightarrow> cache_world \<Rightarrow> error option \<times> cache_world" where
  "Commit f_backup f_stage f_rollback f_remove w =
     (case w of (c, fs) \<Rightarrow>
        if committed c then (Some ErrCacheCommitted, c, fs)
        else
          (let c' = c\<lparr>committed := True\<rparr> in
           case os_Rename f_backup Committed Backup fs of
             (Some e, fs1) \<Rightarrow> (Some (Wrap (Sys e) ''backing up cache'' []), c', fs1)
           | (None, fs1) \<Rightarrow>
              (case os_Rename f_stage Staging Committed fs1 of
                 (Some err1, fs2) \<Rightarrow>
                   (case os_Rename f_rollback Backup Committed fs2 of
                      (Some err2, fs3) \<Rightarrow>
                        (Some (Wrap (Sys err2) ''rolling back cache'' []), c',
                         snd (os_RemoveAll f_remove Backup fs3))
                    | (None, fs3) \<Rightarrow>
                        (Some (Wrap (Sys err1) ''committing cache'' []), c',
                         snd (os_RemoveAll f_remove Backup fs3)))
               | (None, fs2) \<Rightarrow> (None, c', snd (os_RemoveAll f_remove Backup fs2)))))"

section \<open>Sessions of a volume cache\<close>

text \<open>
  A session is the list of mutating calls made on one instance between its construction
  and its commit, each with the failures the environment forces on its system calls.
\<close>

datatype 'm cache_op =
    OpSetMetadata fault wfault 'm
  | OpAddLayerFile fault fault fault wfault string string
  | OpAddLayer fault wfault content string
  | OpReuseLayer fault string

fun apply_op :: "('m \<Rightarrow> error + content) \<Rightarrow> 'm cache_op \<Rightarrow> cache_world \<Rightarrow> error option \<times> cache_world" where
  "apply_op enc (OpSetMetadata f_create f_write m) w = SetMetadata enc f_create f_write m w"
| "apply_op enc (OpAddLayerFile f_stat f_open f_create f_copy tarPath diffID) w =
     AddLayerFile f_stat f_open f_create f_copy tarPath diffID w"
| "apply_op enc (OpAddLayer f_create f_copy rc diffID) w = AddLayer f_create f_copy rc diffID w"
| "apply_op enc (OpReuseLayer f_link diffID) w = ReuseLayer f_link diffID w"


fun run_session ::
  "('m \<Rightarrow> error + content) \<Rightarrow> 'm cache_op list \<Rightarrow> cache_world \<Rightarrow> error option list \<times> cache_world" where
  "run_session enc [] w = ([], w)"
| "run_session enc (x # xs) w =
     (case apply_op enc x w of
        (r, w1) \<Rightarrow> (case run_session enc xs w1 of (rs, w2) \<Rightarrow> (r # rs, w2)))"



section \<open>The exporter\<close>

text \<open>
  Modelled from the spec: the \<^verbatim>\<open>api\<close> package (\<^verbatim>\<open>api.Version\<close>, \<^verbatim>\<open>AtLeast\<close>,
  \<^verbatim>\<open>LessThan\<close>) is declared outside the given sources. The platform API is a
  version \<open>major.minor\<close> and versions compare by major, then minor number.
\<close>

record Version =
  Major :: nat
  Minor :: nat

definition LessThan :: "Version \<Rightarrow> Version \<Rightarrow> bool" where
  "LessThan v other \<longleftrightarrow>
     Major v < Major other \<or> (Major v = Major other \<and> Minor v < Minor other)"

definition AtLeast :: "Version \<Rightarrow> Version \<Rightarrow> bool" where
  "AtLeast v other \<longleftrightarrow> \<not> LessThan v other"

definition v04 :: Version where "v04 = \<lparr>Major = 0, Minor = 4\<rparr>"

definition v05 :: Version where "v05 = \<lparr>Major = 0, Minor = 5\<rparr>"

definition v06 :: Version where "v06 = \<lparr>Major = 0, Minor = 6\<rparr>"

record Layer =
  ID :: string
  TarPath :: string
  Digest :: string

record Process =
  Type :: string
  Command :: string

type_synonym Slice = "string list"

record BuildpackLayerMetadata =
  SHA :: string
  Data :: string
  Build :: bool
  Launch :: bool
  Cache :: bool

record BuildpackLayersMetadata =
  md_ID :: string
  md_Version :: string
  md_Layers :: "string \<rightharpoonup> BuildpackLayerMetadata"
  md_Store :: "string option"

record LayersMetadata =
  lm_App :: "string list"
  lm_Buildpacks :: "BuildpackLayersMetadata list"
  lm_Config :: string
  lm_Launcher :: string
  lm_ProcessTypes :: string
  lm_RunImage_TopLayer :: string
  lm_RunImage_Reference :: string
  lm_Stack :: string

record BuildMetadata =
  Processes :: "Process list"
  Slices :: "Slice list"
  Labels :: "(string \<times> string) list"
  Launcher :: string
  BuildpackDefaultProcessType :: string

record GroupBuildpack =
  bp_ID :: string
  bp_Version :: string
  bp_API :: "Version option"

text \<open>
  The reader of a buildpack's layer directory (\<^verbatim>\<open>readBuildpackLayersDir\<close>,
  \<^verbatim>\<open>findLayers\<close>, and the methods \<^verbatim>\<open>read\<close>, \<^verbatim>\<open>hasLocalContents\<close>, \<^verbatim>\<open>Identifier\<close>,
  \<^verbatim>\<open>name\<close> and the field \<^verbatim>\<open>path\<close> of a layer) is declared outside the given sources:
  what these calls return is data here (\<open>l_name\<close>, \<open>l_path\<close>, \<open>l_read\<close>, \<open>d_store\<close>). \<open>forLaunch\<close> and \<open>forMalformed\<close> are the two lists that
  \<^verbatim>\<open>findLayers\<close> returns for the two predicates the exporter uses.
\<close>

record bpLayer =
  Identifier :: string
  l_name :: string
  l_path :: string
  l_read :: "error + BuildpackLayerMetadata"
  hasLocalContents :: bool

record bpLayersDir =
  d_store :: "string option"
  forLaunch :: "bpLayer list"
  forMalformed :: "bpLayer list"

text \<open>The layer factory is an interface: a record of functions that return a layer
  and an error, as the Go methods do.\<close>

record LayerFactory =
  DirLayer :: "string \<Rightarrow> string \<Rightarrow> Layer \<times> error option"
  LauncherLayer :: "string \<Rightarrow> Layer \<times> error option"
  ProcessTypesLayer :: "Process list \<Rightarrow> Layer \<times> error option"
  SliceLayers :: "string \<Rightarrow> Slice list \<Rightarrow> Layer list \<times> error option"

record Exporter =
  Buildpacks :: "GroupBuildpack list"
  LayerFactory :: LayerFactory
  PlatformAPI :: Version

text \<open>
  The working image is an interface too. Every call made on it is appended to the
  history kept in the state; what a call returns is given by the image as a function
  of the history so far.
\<close>

datatype img_call =
    ImgTopLayer
  | ImgAddLayerWithDiffID string string
  | ImgReuseLayer string
  | ImgSetLabel string string
  | ImgSetEnv string string
  | ImgEnv string
  | ImgSetEntrypoint string
  | ImgSetCmd
  | ImgSetWorkingDir string
  | ImgSave "string list"

record Image =
  img_error :: "img_call list \<Rightarrow> img_call \<Rightarrow> error option"
  img_value :: "img_call list \<Rightarrow> img_call \<Rightarrow> string"

datatype level = Debug | Info | Warn

record xstate =
  calls :: "img_call list"
  logs :: "(level \<times> string \<times> arg list) list"

definition img :: "Image \<Rightarrow> img_call \<Rightarrow> xstate \<Rightarrow> error option \<times> xstate" where
  "img workingImage k s = (img_error workingImage (calls s) k, s\<lparr>calls := calls s @ [k]\<rparr>)"

definition img_get :: "Image \<Rightarrow> img_call \<Rightarrow> xstate \<Rightarrow> (string \<times> error option) \<times> xstate" where
  "img_get workingImage k s =
     ((img_value workingImage (calls s) k, img_error workingImage (calls s) k), s\<lparr>calls := calls s @ [k]\<rparr>)"

definition logf :: "level \<Rightarrow> string \<Rightarrow> arg list \<Rightarrow> xstate \<Rightarrow> xstate" where
  "logf lv fmt args s = s\<lparr>logs := logs s @ [(lv, fmt, args)]\<rparr>"

text \<open>
  What the exporter reads from its host, the files under the layers directory, the
  JSON encoders and the constants of the \<^verbatim>\<open>launch\<close> package are parameters.
\<close>

record 'r Host =
  Abs :: "string \<Rightarrow> string \<times> error option"
  DecodeBuildMetadata :: "string \<Rightarrow> BuildMetadata \<times> error option"
  readBuildpackLayersDir :: "string \<Rightarrow> GroupBuildpack \<Rightarrow> bpLayersDir \<times> error option"
  MarshalLayers :: "LayersMetadata \<Rightarrow> string \<times> error option"
  MarshalBuild :: "BuildMetadata \<Rightarrow> string \<times> error option"
  MarshalProject :: "string \<Rightarrow> string \<times> error option"
  DecodeBuildTOML :: "string \<Rightarrow> string list \<times> errno option"
  VersionString :: "Version \<Rightarrow> string"
  PathListSeparator :: string
  LauncherPath :: string
  ProcessDir :: string
  LifecycleDir :: string
  ProcessPath :: "string \<Rightarrow> string"
  EscapeID :: "string \<Rightarrow> string"
  ImageReport :: "img_call list \<Rightarrow> 'r"
  ZeroManifestSize :: "'r \<Rightarrow> 'r"

record ExportOptions =
  LayersDir :: string
  AppDir :: string
  RunImageRef :: string
  OrigMetadata :: LayersMetadata
  AdditionalNames :: "string list"
  LauncherConfig_Path :: string
  LauncherConfig_Metadata :: string
  Stack :: string
  Project :: string
  DefaultProcessType :: string

record 'r ExportReport =
  rep_Build :: "(GroupBuildpack \<times> string) list"
  rep_Image :: 'r

text \<open>Modelled from the spec: \<^verbatim>\<open>MetadataForBuildpack\<close> is declared outside the given
  sources; it returns the buildpack's entry of the metadata, or an empty one.\<close>

definition MetadataForBuildpack :: "LayersMetadata \<Rightarrow> string \<Rightarrow> BuildpackLayersMetadata" where
  "MetadataForBuildpack m i =
     (case find (\<lambda>bpMD. md_ID bpMD = i) (lm_Buildpacks m) of
        Some bpMD \<Rightarrow> bpMD
      | None \<Rightarrow> \<lparr>md_ID = [], md_Version = [], md_Layers = Map.empty, md_Store = None\<rparr>)"

text \<open>Modelled from the spec: \<^verbatim>\<open>FindProcessType\<close> of the \<^verbatim>\<open>launch\<close> package is declared
  outside the given sources; it finds the process of a given type.\<close>

definition FindProcessType :: "Process list \<Rightarrow> string \<Rightarrow> Process option" where
  "FindProcessType launchMD kind = find (\<lambda>p. Type p = kind) launchMD"

definition supportsMulticallLauncher :: "Exporter \<Rightarrow> bool" where
  "supportsMulticallLauncher e = AtLeast (PlatformAPI e) v04"

definition supportsManifestSize :: "Exporter \<Rightarrow> bool" where
  "supportsManifestSize e = AtLeast (PlatformAPI e) v06"

definition addOrReuseLayer ::
  "Exporter \<Rightarrow> Image \<Rightarrow> Layer \<Rightarrow> string \<Rightarrow> xstate \<Rightarrow> (string \<times> error option) \<times> xstate" where
  "addOrReuseLayer e workingImage layer0 previousSHA s =
     (case DirLayer (LayerFactory e) (ID layer0) (TarPath layer0) of
        (layer, Some err) \<Rightarrow>
          (([], Some (Wrap err (''creating layer '%s'' @ sq) [S (ID layer)])), s)
      | (layer, None) \<Rightarrow>
          if Digest layer = previousSHA then
            (case img workingImage (ImgReuseLayer previousSHA)
                    (logf Debug ''Layer '%s' SHA: %s\<newline>'' [S (ID layer), S (Digest layer)]
                      (logf Info ''Reusing layer '%s'\<newline>'' [S (ID layer)] s)) of
               (r, s1) \<Rightarrow> ((Digest layer, r), s1))
          else
            (case img workingImage (ImgAddLayerWithDiffID (TarPath layer) (Digest layer))
                    (logf Debug ''Layer '%s' SHA: %s\<newline>'' [S (ID layer), S (Digest layer)]
                      (logf Info ''Adding layer '%s'\<newline>'' [S (ID layer)] s)) of
               (r, s1) \<Rightarrow> ((Digest layer, r), s1)))"

text \<open>The zero value a Go map returns for a missing key.\<close>

definition zeroLayerMetadata :: BuildpackLayerMetadata where
  "zeroLayerMetadata = \<lparr>SHA = [], Data = [], Build = False, Launch = False, Cache = False\<rparr>"

text \<open>The body of the inner loop of \<^verbatim>\<open>addBuildpackLayers\<close>: one launch layer of one
  buildpack, with the layer map of the buildpack's metadata so far.\<close>

definition addBuildpackLayers_layer ::
  "Exporter \<Rightarrow> Image \<Rightarrow> ExportOptions \<Rightarrow> GroupBuildpack \<Rightarrow> bpLayer \<Rightarrow>
   (string \<rightharpoonup> BuildpackLayerMetadata) \<Rightarrow> xstate \<Rightarrow>
   (error + (string \<rightharpoonup> BuildpackLayerMetadata)) \<times> xstate" where
  "addBuildpackLayers_layer e workingImage opts bp fsLayer layers s =
     (case l_read fsLayer of
        Inl err \<Rightarrow> (Inl (Wrap err ''reading '%s' metadata'' [S (Identifier fsLayer)]), s)
      | Inr lmd \<Rightarrow>
          if hasLocalContents fsLayer then
            (case DirLayer (LayerFactory e) (Identifier fsLayer) (l_path fsLayer) of
               (layer, Some err) \<Rightarrow> (Inl (Wrap err ''creating layer'' []), s)
             | (layer, None) \<Rightarrow>
                 (let origLayerMetadata =
                        (case md_Layers (MetadataForBuildpack (OrigMetadata opts) (bp_ID bp)) (l_name fsLayer) of
                           None \<Rightarrow> zeroLayerMetadata | Some m \<Rightarrow> m)
                  in case addOrReuseLayer e workingImage layer (SHA origLayerMetadata) s of
                       ((sha, Some err), s1) \<Rightarrow> (Inl err, s1)
                     | ((sha, None), s1) \<Rightarrow> (Inr (layers(l_name fsLayer \<mapsto> lmd\<lparr>SHA := sha\<rparr>)), s1)))
          else if Cache lmd then
            (Inl (Errorf ''layer '%s' is cache=true but has no contents'' [S (Identifier fsLayer)]), s)
          else
            (case md_Layers (MetadataForBuildpack (OrigMetadata opts) (bp_ID bp)) (l_name fsLayer) of
               None \<Rightarrow>
                 (Inl (Errorf (''cannot reuse '%s', previous image has no metadata for layer '%s'' @ sq)
                         [S (Identifier fsLayer), S (Identifier fsLayer)]), s)
             | Some origLayerMetadata \<Rightarrow>
                 (case img workingImage (ImgReuseLayer (SHA origLayerMetadata))
                         (logf Debug ''Layer '%s' SHA: %s\<newline>''
                            [S (Identifier fsLayer), S (SHA origLayerMetadata)]
                           (logf Info ''Reusing layer '%s'\<newline>'' [S (Identifier fsLayer)] s)) of
                    (Some err, s1) \<Rightarrow>
                      (Inl (Wrap err (''reusing layer: '%s'' @ sq) [S (Identifier fsLayer)]), s1)
                  | (None, s1) \<Rightarrow>
                      (Inr (layers(l_name fsLayer \<mapsto> lmd\<lparr>SHA := SHA origLayerMetadata\<rparr>)), s1))))"

fun addBuildpackLayers_layers ::
  "Exporter \<Rightarrow> Image \<Rightarrow> ExportOptions \<Rightarrow> GroupBuildpack \<Rightarrow> bpLayer list \<Rightarrow>
   (string \<rightharpoonup> BuildpackLayerMetadata) \<Rightarrow> xstate \<Rightarrow>
   (error + (string \<rightharpoonup> BuildpackLayerMetadata)) \<times> xstate" where
  "addBuildpackLayers_layers e workingImage opts bp [] layers s = (Inr layers, s)"
| "addBuildpackLayers_layers e workingImage opts bp (fsLayer # rest) layers s =
     (case addBuildpackLayers_layer e workingImage opts bp fsLayer layers s of
        (Inl err, s1) \<Rightarrow> (Inl err, s1)
      | (Inr layers1, s1) \<Rightarrow> addBuildpackLayers_layers e workingImage opts bp rest layers1 s1)"

text \<open>The body of the outer loop: one buildpack of the group.\<close>

definition addBuildpackLayers_bp ::
  "Exporter \<Rightarrow> Image \<Rightarrow> 'r Host \<Rightarrow> ExportOptions \<Rightarrow> GroupBuildpack \<Rightarrow> LayersMetadata \<Rightarrow> xstate \<Rightarrow>
   (error + LayersMetadata) \<times> xstate" where
  "addBuildpackLayers_bp e workingImage host opts bp meta s =
     (case readBuildpackLayersDir host (LayersDir opts) bp of
        (bpDir, Some err) \<Rightarrow>
          (Inl (Wrap err (''reading layers for buildpack '%s'' @ sq) [S (bp_ID bp)]), s)
      | (bpDir, None) \<Rightarrow>
          (case addBuildpackLayers_layers e workingImage opts bp (forLaunch bpDir) Map.empty s of
             (Inl err, s1) \<Rightarrow> (Inl err, s1)
           | (Inr layers, s1) \<Rightarrow>
               (let bpMD = \<lparr>md_ID = bp_ID bp, md_Version = bp_Version bp, md_Layers = layers,
                            md_Store = d_store bpDir\<rparr>;
                    meta1 = meta\<lparr>lm_Buildpacks := lm_Buildpacks meta @ [bpMD]\<rparr>
                in if length (forMalformed bpDir) > 0
                   then (Inl (Errorf (''failed to parse metadata for layers '%s'' @ sq)
                                [SL (map Identifier (forMalformed bpDir))]), s1)
                   else (Inr meta1, s1))))"

fun addBuildpackLayers_loop ::
  "Exporter \<Rightarrow> Image \<Rightarrow> 'r Host \<Rightarrow> ExportOptions \<Rightarrow> GroupBuildpack list \<Rightarrow> LayersMetadata \<Rightarrow> xstate \<Rightarrow>
   (error + LayersMetadata) \<times> xstate" where
  "addBuildpackLayers_loop e workingImage host opts [] meta s = (Inr meta, s)"
| "addBuildpackLayers_loop e workingImage host opts (bp # rest) meta s =
     (case addBuildpackLayers_bp e workingImage host opts bp meta s of
        (Inl err, s1) \<Rightarrow> (Inl err, s1)
      | (Inr meta1, s1) \<Rightarrow> addBuildpackLayers_loop e workingImage host opts rest meta1 s1)"

definition addBuildpackLayers ::
  "Exporter \<Rightarrow> Image \<Rightarrow> 'r Host \<Rightarrow> ExportOptions \<Rightarrow> LayersMetadata \<Rightarrow> xstate \<Rightarrow>
   (error + LayersMetadata) \<times> xstate" where
  "addBuildpackLayers e workingImage host opts meta s =
     addBuildpackLayers_loop e workingImage host opts (Buildpacks e) meta s"

fun addAppLayers_loop ::
  "Image \<Rightarrow> ExportOptions \<Rightarrow> Layer list \<Rightarrow> nat \<Rightarrow> LayersMetadata \<Rightarrow> xstate \<Rightarrow>
   (error + nat \<times> LayersMetadata) \<times> xstate" where
  "addAppLayers_loop workingImage opts [] numberOfReusedLayers meta s =
     (Inr (numberOfReusedLayers, meta), s)"
| "addAppLayers_loop workingImage opts (slice # rest) numberOfReusedLayers meta s =
     (let found = list_ex (\<lambda>previous. Digest slice = previous) (lm_App (OrigMetadata opts))
      in case (if found then img workingImage (ImgReuseLayer (Digest slice)) s
               else img workingImage (ImgAddLayerWithDiffID (TarPath slice) (Digest slice)) s) of
           (Some err, s1) \<Rightarrow> (Inl err, s1)
         | (None, s1) \<Rightarrow>
             addAppLayers_loop workingImage opts rest
               (if found then numberOfReusedLayers + 1 else numberOfReusedLayers)
               (meta\<lparr>lm_App := lm_App meta @ [Digest slice]\<rparr>)
               (logf Debug ''Layer '%s' SHA: %s\<newline>'' [S (ID slice), S (Digest slice)] s1))"

text \<open>The count of reused layers never exceeds the number of slices, so the
  difference \<open>delta\<close> is a natural number.\<close>

definition addAppLayers ::
  "Exporter \<Rightarrow> Image \<Rightarrow> ExportOptions \<Rightarrow> Slice list \<Rightarrow> LayersMetadata \<Rightarrow> xstate \<Rightarrow>
   (error + LayersMetadata) \<times> xstate" where
  "addAppLayers e workingImage opts slices meta s =
     (case SliceLayers (LayerFactory e) (AppDir opts) slices of
        (sliceLayers, Some err) \<Rightarrow> (Inl (Wrap err ''creating app layers'' []), s)
      | (sliceLayers, None) \<Rightarrow>
          (case addAppLayers_loop workingImage opts sliceLayers 0 meta s of
             (Inl err, s1) \<Rightarrow> (Inl err, s1)
           | (Inr (numberOfReusedLayers, meta1), s1) \<Rightarrow>
               (let delta = length sliceLayers - numberOfReusedLayers;
                    s2 = (if numberOfReusedLayers > 0
                          then logf Info ''Reusing %d/%d app layer(s)\<newline>''
                                 [N numberOfReusedLayers, N (length sliceLayers)] s1
                          else s1);
                    s3 = (if delta \<noteq> 0
                          then logf Info ''Adding %d/%d app layer(s)\<newline>''
                                 [N delta, N (length sliceLayers)] s2
                          else s2)
                in (Inr meta1, s3))))"

definition launcherConfig ::
  "Exporter \<Rightarrow> Image \<Rightarrow> ExportOptions \<Rightarrow> BuildMetadata \<Rightarrow> LayersMetadata \<Rightarrow> xstate \<Rightarrow>
   (error + LayersMetadata) \<times> xstate" where
  "launcherConfig e workingImage opts buildMD meta s =
     (if supportsMulticallLauncher e then
        (if length (Processes buildMD) > 0 then
           (case ProcessTypesLayer (LayerFactory e) (Processes buildMD) of
              (processTypesLayer, Some err) \<Rightarrow>
                (Inl (Wrap err (''creating layer '%s'' @ sq) [S (ID processTypesLayer)]), s)
            | (processTypesLayer, None) \<Rightarrow>
                (case addOrReuseLayer e workingImage processTypesLayer
                        (lm_ProcessTypes (OrigMetadata opts)) s of
                   ((sha, Some err), s1) \<Rightarrow>
                     (Inl (Wrap err (''exporting layer '%s'' @ sq) [S (ID processTypesLayer)]), s1)
                 | ((sha, None), s1) \<Rightarrow> (Inr (meta\<lparr>lm_ProcessTypes := sha\<rparr>), s1)))
         else (Inr meta, s))
      else (Inr meta, s))"

definition addLauncherLayers ::
  "Exporter \<Rightarrow> Image \<Rightarrow> ExportOptions \<Rightarrow> BuildMetadata \<Rightarrow> LayersMetadata \<Rightarrow> xstate \<Rightarrow>
   (error + LayersMetadata) \<times> xstate" where
  "addLauncherLayers e workingImage opts buildMD meta s =
     (case LauncherLayer (LayerFactory e) (LauncherConfig_Path opts) of
        (launcherLayer, Some err) \<Rightarrow> (Inl (Wrap err ''creating launcher layers'' []), s)
      | (launcherLayer, None) \<Rightarrow>
          (case addOrReuseLayer e workingImage launcherLayer (lm_Launcher (OrigMetadata opts)) s of
             ((sha, Some err), s1) \<Rightarrow> (Inl (Wrap err ''exporting launcher configLayer'' []), s1)
           | ((sha, None), s1) \<Rightarrow>
               (case DirLayer (LayerFactory e) ''config'' (Join (LayersDir opts) ''config'') of
                  (configLayer, Some err) \<Rightarrow>
                    (Inl (Wrap err (''creating layer '%s'' @ sq) [S (ID configLayer)]), s1)
                | (configLayer, None) \<Rightarrow>
                    (case addOrReuseLayer e workingImage configLayer (lm_Config (OrigMetadata opts)) s1 of
                       ((sha2, Some err), s2) \<Rightarrow> (Inl (Wrap err ''exporting config layer'' []), s2)
                     | ((sha2, None), s2) \<Rightarrow>
                         launcherConfig e workingImage opts buildMD
                           (meta\<lparr>lm_Launcher := sha, lm_Config := sha2\<rparr>) s2))))"

text \<open>Modelled from the spec: the label keys of the \<^verbatim>\<open>dataformat\<close> package are
  declared outside the given sources; the spec fixes the three keys.\<close>

definition LayerMetadataLabel :: string where
  "LayerMetadataLabel = ''io.buildpacks.lifecycle.metadata''"

definition BuildMetadataLabel :: string where
  "BuildMetadataLabel = ''io.buildpacks.build.metadata''"

definition ProjectMetadataLabel :: string where
  "ProjectMetadataLabel = ''io.buildpacks.project.metadata''"

fun setLabels_loop :: "Image \<Rightarrow> (string \<times> string) list \<Rightarrow> xstate \<Rightarrow> error option \<times> xstate" where
  "setLabels_loop workingImage [] s = (None, s)"
| "setLabels_loop workingImage ((key, val) # rest) s =
     (case img workingImage (ImgSetLabel key val) (logf Info (''Adding label '%s'' @ sq) [S key] s) of
        (Some err, s1) \<Rightarrow>
          (Some (Wrap err (''set buildpack-provided label '%s'' @ sq) [S key]), s1)
      | (None, s1) \<Rightarrow> setLabels_loop workingImage rest s1)"

text \<open>\<^verbatim>\<open>setLabels\<close> stores the launcher metadata in the build metadata it was given;
  the updated build metadata is returned with the result.\<close>

definition setLabels ::
  "Image \<Rightarrow> 'r Host \<Rightarrow> ExportOptions \<Rightarrow> LayersMetadata \<Rightarrow> BuildMetadata \<Rightarrow> xstate \<Rightarrow>
   (error + BuildMetadata) \<times> xstate" where
  "setLabels workingImage host opts meta buildMD s =
     (case MarshalLayers host meta of
        (data, Some err) \<Rightarrow> (Inl (Wrap err ''marshall metadata'' []), s)
      | (data, None) \<Rightarrow>
          (case img workingImage (ImgSetLabel LayerMetadataLabel data)
                  (logf Info (''Adding label '%s'' @ sq) [S LayerMetadataLabel] s) of
             (Some err, s1) \<Rightarrow> (Inl (Wrap err ''set app image metadata label'' []), s1)
           | (None, s1) \<Rightarrow>
               (let buildMD1 = buildMD\<lparr>Launcher := LauncherConfig_Metadata opts\<rparr> in
                case MarshalBuild host buildMD1 of
                  (buildJSON, Some err) \<Rightarrow> (Inl (Wrap err ''parse build metadata'' []), s1)
                | (buildJSON, None) \<Rightarrow>
                    (case img workingImage (ImgSetLabel BuildMetadataLabel buildJSON)
                            (logf Info (''Adding label '%s'' @ sq) [S BuildMetadataLabel] s1) of
                       (Some err, s2) \<Rightarrow>
                         (Inl (Wrap err ''set build image metadata label'' []), s2)
                     | (None, s2) \<Rightarrow>
                         (case MarshalProject host (Project opts) of
                            (projectJSON, Some err) \<Rightarrow>
                              (Inl (Wrap err ''parse project metadata'' []), s2)
                          | (projectJSON, None) \<Rightarrow>
                              (case img workingImage (ImgSetLabel ProjectMetadataLabel projectJSON)
                                      (logf Info (''Adding label '%s'' @ sq)
                                         [S ProjectMetadataLabel] s2) of
                                 (Some err, s3) \<Rightarrow>
                                   (Inl (Wrap err ''set project metadata label'' []), s3)
                               | (None, s3) \<Rightarrow>
                                   (case setLabels_loop workingImage (Labels buildMD1) s3 of
                                      (Some err, s4) \<Rightarrow> (Inl err, s4)
                                    | (None, s4) \<Rightarrow> (Inr buildMD1, s4))))))))"

definition EnvLayersDir :: string where "EnvLayersDir = ''CNB_LAYERS_DIR''"

definition EnvAppDir :: string where "EnvAppDir = ''CNB_APP_DIR''"

definition EnvPlatformAPI :: string where "EnvPlatformAPI = ''CNB_PLATFORM_API''"

definition EnvDeprecationMode :: string where "EnvDeprecationMode = ''CNB_DEPRECATION_MODE''"

definition EnvProcessType :: string where "EnvProcessType = ''CNB_PROCESS_TYPE''"

definition DeprecationModeQuiet :: string where "DeprecationModeQuiet = ''quiet''"

text \<open>\<^verbatim>\<open>processTypeWarning\<close>: the format and the arguments of the message.\<close>

definition processTypeWarning :: "Process list \<Rightarrow> string \<Rightarrow> string \<times> arg list" where
  "processTypeWarning launchMD defaultProcessType =
     (''default process type '%s' not present in list %+v'',
      [S defaultProcessType, SL (map Type launchMD)])"

definition processTypeError :: "Process list \<Rightarrow> string \<Rightarrow> error" where
  "processTypeError launchMD defaultProcessType =
     (case processTypeWarning launchMD defaultProcessType of (fmt, args) \<Rightarrow> Errorf fmt args)"

definition setEnv ::
  "Exporter \<Rightarrow> Image \<Rightarrow> 'r Host \<Rightarrow> ExportOptions \<Rightarrow> Process list \<Rightarrow> xstate \<Rightarrow>
   error option \<times> xstate" where
  "setEnv e workingImage host opts launchMD s =
     (case img workingImage (ImgSetEnv EnvLayersDir (LayersDir opts))
             (logf Debug ''Setting %s=%s'' [S EnvLayersDir, S (LayersDir opts)] s) of
        (Some err, s1) \<Rightarrow> (Some (Wrap err ''set app image env %s'' [S EnvLayersDir]), s1)
      | (None, s1) \<Rightarrow>
     (case img workingImage (ImgSetEnv EnvAppDir (AppDir opts))
             (logf Debug ''Setting %s=%s'' [S EnvAppDir, S (AppDir opts)] s1) of
        (Some err, s2) \<Rightarrow> (Some (Wrap err ''set app image env %s'' [S EnvAppDir]), s2)
      | (None, s2) \<Rightarrow>
     (case img workingImage (ImgSetEnv EnvPlatformAPI (VersionString host (PlatformAPI e)))
             (logf Debug ''Setting %s=%s''
                [S EnvPlatformAPI, S (VersionString host (PlatformAPI e))] s2) of
        (Some err, s3) \<Rightarrow> (Some (Wrap err ''set app image env %s'' [S EnvAppDir]), s3)
      | (None, s3) \<Rightarrow>
     (case img workingImage (ImgSetEnv EnvDeprecationMode DeprecationModeQuiet)
             (logf Debug ''Setting %s=%s'' [S EnvDeprecationMode, S DeprecationModeQuiet] s3) of
        (Some err, s4) \<Rightarrow> (Some (Wrap err ''set app image env %s'' [S EnvAppDir]), s4)
      | (None, s4) \<Rightarrow>
          if supportsMulticallLauncher e then
            (case img_get workingImage (ImgEnv ''PATH'') s4 of
               ((p, Some err), s5) \<Rightarrow>
                 (Some (Wrap err ''failed to get PATH from app image'' []), s5)
             | ((p, None), s5) \<Rightarrow>
                 (case img workingImage
                         (ImgSetEnv ''PATH''
                            (ProcessDir host @ PathListSeparator host @ LifecycleDir host
                               @ PathListSeparator host @ p))
                         (logf Debug ''Prepending %s and %s to PATH''
                            [S (ProcessDir host), S (LifecycleDir host)] s5) of
                    (Some err, s6) \<Rightarrow> (Some (Wrap err ''set app image env PATH'' []), s6)
                  | (None, s6) \<Rightarrow> (None, s6)))
          else if DefaultProcessType opts \<noteq> [] then
            (case FindProcessType launchMD (DefaultProcessType opts) of
               None \<Rightarrow> (Some (processTypeError launchMD (DefaultProcessType opts)), s4)
             | Some p \<Rightarrow>
                 (case img workingImage (ImgSetEnv EnvProcessType (DefaultProcessType opts))
                         (logf Debug ''Setting %s=%s''
                            [S EnvProcessType, S (DefaultProcessType opts)] s4) of
                    (Some err, s5) \<Rightarrow>
                      (Some (Wrap err ''set app image env %s'' [S EnvProcessType]), s5)
                  | (None, s5) \<Rightarrow> (None, s5)))
          else (None, s4)))))"

definition setWorkingDir :: "Image \<Rightarrow> ExportOptions \<Rightarrow> xstate \<Rightarrow> error option \<times> xstate" where
  "setWorkingDir workingImage opts s = img workingImage (ImgSetWorkingDir (AppDir opts)) s"

definition entrypoint ::
  "Exporter \<Rightarrow> 'r Host \<Rightarrow> Process list \<Rightarrow> string \<Rightarrow> string \<Rightarrow> xstate \<Rightarrow> (error + string) \<times> xstate" where
  "entrypoint e host launchMD userDefaultProcessType buildpackDefaultProcessType s =
     (if \<not> supportsMulticallLauncher e then (Inr (LauncherPath host), s)
      else if userDefaultProcessType = [] \<and> LessThan (PlatformAPI e) v06 \<and> length launchMD = 1 then
        (case launchMD of
           p # rest \<Rightarrow>
             (Inr (ProcessPath host (Type p)),
              logf Info (''Setting default process type '%s'' @ sq) [S (Type p)] s)
         | [] \<Rightarrow> (Inl (Panic ''index out of range''), s))
      else if userDefaultProcessType \<noteq> [] then
        (case FindProcessType launchMD userDefaultProcessType of
           None \<Rightarrow>
             if LessThan (PlatformAPI e) v06 then
               (case processTypeWarning launchMD userDefaultProcessType of
                  (fmt, args) \<Rightarrow> (Inr (LauncherPath host), logf Warn fmt args s))
             else
               (Inl (Errorf ''tried to set %s to default but it doesn't exist''
                       [S userDefaultProcessType]), s)
         | Some defaultProcess \<Rightarrow>
             (Inr (ProcessPath host (Type defaultProcess)),
              logf Info (''Setting default process type '%s'' @ sq) [S (Type defaultProcess)] s))
      else if buildpackDefaultProcessType = [] then
        (Inr (LauncherPath host), logf Info ''no default process type'' [] s)
      else
        (Inr (ProcessPath host buildpackDefaultProcessType),
         logf Info (''Setting default process type '%s'' @ sq) [S buildpackDefaultProcessType] s))"

text \<open>Modelled from the spec: \<^verbatim>\<open>buildpack.WithBuildpack\<close> is declared outside the
  given sources; it annotates each entry of a bill of materials with its buildpack.\<close>

definition WithBuildpack :: "GroupBuildpack \<Rightarrow> string list \<Rightarrow> (GroupBuildpack \<times> string) list" where
  "WithBuildpack bp bom = map (\<lambda>entry. (bp, entry)) bom"

text \<open>\<^verbatim>\<open>makeBuildReport\<close>. \<^verbatim>\<open>api.MustParse\<close> panics on a buildpack API that does not
  parse (\<open>bp_API = None\<close>).\<close>

fun makeBuildReport_loop ::
  "'r Host \<Rightarrow> string \<Rightarrow> GroupBuildpack list \<Rightarrow> (GroupBuildpack \<times> string) list \<Rightarrow>
   error + (GroupBuildpack \<times> string) list" where
  "makeBuildReport_loop host layersDir [] out = Inr out"
| "makeBuildReport_loop host layersDir (bp # rest) out =
     (case bp_API bp of
        None \<Rightarrow> Inl (Panic ''MustParse'')
      | Some v \<Rightarrow>
          if LessThan v v05 then makeBuildReport_loop host layersDir rest out
          else
            (case DecodeBuildTOML host
                    (Join (Join layersDir (EscapeID host (bp_ID bp))) ''build.toml'') of
               (bom, Some err) \<Rightarrow>
                 if \<not> IsNotExist err then Inl (Sys err)
                 else makeBuildReport_loop host layersDir rest (out @ WithBuildpack bp bom)
             | (bom, None) \<Rightarrow>
                 makeBuildReport_loop host layersDir rest (out @ WithBuildpack bp bom)))"

definition makeBuildReport ::
  "Exporter \<Rightarrow> 'r Host \<Rightarrow> string \<Rightarrow> error + (GroupBuildpack \<times> string) list" where
  "makeBuildReport e host layersDir =
     (if LessThan (PlatformAPI e) v05 then Inr []
      else makeBuildReport_loop host layersDir (Buildpacks e) [])"

text \<open>Modelled from the spec: \<^verbatim>\<open>saveImage\<close> is declared outside the given sources;
  it saves the image under the requested names through the image's own save
  operation and returns the image's identifiers.\<close>

definition saveImage :: "Image \<Rightarrow> 'r Host \<Rightarrow> string list \<Rightarrow> xstate \<Rightarrow> (error + 'r) \<times> xstate" where
  "saveImage workingImage host additionalNames s =
     (case img workingImage (ImgSave additionalNames) s of
        (Some err, s1) \<Rightarrow> (Inl err, s1)
      | (None, s1) \<Rightarrow> (Inr (ImageReport host (calls s1)), s1))"

definition emptyLayersMetadata :: LayersMetadata where
  "emptyLayersMetadata =
     \<lparr>lm_App = [], lm_Buildpacks = [], lm_Config = [], lm_Launcher = [], lm_ProcessTypes = [],
      lm_RunImage_TopLayer = [], lm_RunImage_Reference = [], lm_Stack = []\<rparr>"

text \<open>The part of \<^verbatim>\<open>Export\<close> after the layers: labels, environment, working
  directory, entrypoint, command, report and save.\<close>

definition Export_finish ::
  "Exporter \<Rightarrow> Image \<Rightarrow> 'r Host \<Rightarrow> ExportOptions \<Rightarrow> LayersMetadata \<Rightarrow> BuildMetadata \<Rightarrow> xstate \<Rightarrow>
   (error + 'r ExportReport) \<times> xstate" where
  "Export_finish e workingImage host opts meta buildMD0 s =
     (case setLabels workingImage host opts meta buildMD0 s of
        (Inl err, s1) \<Rightarrow> (Inl err, s1)
      | (Inr buildMD, s1) \<Rightarrow>
     (case setEnv e workingImage host opts (Processes buildMD) s1 of
        (Some err, s2) \<Rightarrow> (Inl err, s2)
      | (None, s2) \<Rightarrow>
     (case (if AtLeast (PlatformAPI e) v06
            then setWorkingDir workingImage opts (logf Debug (''Setting WORKDIR: '%s'' @ sq) [S (AppDir opts)] s2)
            else (None, s2)) of
        (Some err, s3) \<Rightarrow> (Inl (Wrap err ''setting workdir'' []), s3)
      | (None, s3) \<Rightarrow>
     (case entrypoint e host (Processes buildMD) (DefaultProcessType opts)
             (BuildpackDefaultProcessType buildMD) s3 of
        (Inl err, s4) \<Rightarrow> (Inl (Wrap err ''determining entrypoint'' []), s4)
      | (Inr ep, s4) \<Rightarrow>
     (case img workingImage (ImgSetEntrypoint ep)
             (logf Debug (''Setting ENTRYPOINT: '%s'' @ sq) [S ep] s4) of
        (Some err, s5) \<Rightarrow> (Inl (Wrap err ''setting entrypoint'' []), s5)
      | (None, s5) \<Rightarrow>
     (case img workingImage ImgSetCmd s5 of
        (Some err, s6) \<Rightarrow> (Inl (Wrap err ''setting cmd'' []), s6)
      | (None, s6) \<Rightarrow>
     (case makeBuildReport e host (LayersDir opts) of
        Inl err \<Rightarrow> (Inl err, s6)
      | Inr build \<Rightarrow>
     (case saveImage workingImage host (AdditionalNames opts) s6 of
        (Inl err, s7) \<Rightarrow> (Inl err, s7)
      | (Inr image_report, s7) \<Rightarrow>
          (Inr \<lparr>rep_Build = build,
                rep_Image = (if \<not> supportsManifestSize e then ZeroManifestSize host image_report
                             else image_report)\<rparr>, s7)))))))))"

definition Export ::
  "Exporter \<Rightarrow> Image \<Rightarrow> 'r Host \<Rightarrow> ExportOptions \<Rightarrow> xstate \<Rightarrow> (error + 'r ExportReport) \<times> xstate" where
  "Export e workingImage host opts0 s =
     (case Abs host (LayersDir opts0) of
        (layersDir, Some err) \<Rightarrow> (Inl (Wrap err ''layers dir absolute path'' []), s)
      | (layersDir, None) \<Rightarrow>
     (case Abs host (AppDir opts0) of
        (appDir, Some err) \<Rightarrow> (Inl (Wrap err ''app dir absolute path'' []), s)
      | (appDir, None) \<Rightarrow>
     (let opts = opts0\<lparr>LayersDir := layersDir, AppDir := appDir\<rparr> in
      case img_get workingImage ImgTopLayer s of
        ((topLayer, Some err), s1) \<Rightarrow> (Inl (Wrap err ''get run image top layer SHA'' []), s1)
      | ((topLayer, None), s1) \<Rightarrow>
     (let meta = emptyLayersMetadata\<lparr>lm_RunImage_TopLayer := topLayer,
                   lm_RunImage_Reference := RunImageRef opts, lm_Stack := Stack opts\<rparr> in
      case DecodeBuildMetadata host (Join (Join (LayersDir opts) ''config'') ''metadata.toml'') of
        (buildMD, Some err) \<Rightarrow> (Inl (Wrap err ''read build metadata'' []), s1)
      | (buildMD, None) \<Rightarrow>
     (case addBuildpackLayers e workingImage host opts meta s1 of
        (Inl err, s2) \<Rightarrow> (Inl err, s2)
      | (Inr meta1, s2) \<Rightarrow>
     (case addAppLayers e workingImage opts (Slices buildMD) meta1 s2 of
        (Inl err, s3) \<Rightarrow> (Inl (Wrap err ''exporting app layers'' []), s3)
      | (Inr meta2, s3) \<Rightarrow>
     (case addLauncherLayers e workingImage opts buildMD meta2 s3 of
        (Inl err, s4) \<Rightarrow> (Inl err, s4)
      | (Inr meta3, s4) \<Rightarrow> Export_finish e workingImage host opts meta3 buildMD s4)))))))"

section \<open>Predicates of the statements\<close>





text \<open>The calls that put a layer on the image.\<close>

definition is_layer_call :: "img_call \<Rightarrow> bool" where
  "is_layer_call k = (case k of ImgAddLayerWithDiffID t d \<Rightarrow> True | ImgReuseLayer d \<Rightarrow> True | _ \<Rightarrow> False)"

text \<open>The layer calls of a history, in order.\<close>

definition layer_calls :: "img_call list \<Rightarrow> img_call list" where
  "layer_calls ks = filter is_layer_call ks"

text \<open>The later state has made no layer call since the earlier one.\<close>

definition quiet :: "xstate \<Rightarrow> xstate \<Rightarrow> bool" where
  "quiet s s' \<longleftrightarrow> (\<exists>ks. calls s' = calls s @ ks \<and> layer_calls ks = [])"

section \<open>The layer sequence of the spec\<close>

text \<open>The spec lists the layer calls of a successful export: buildpack launch layers
  in group order, app slices in slice order, launcher, config, process-types. The
  definitions of this section write that list down from the inputs of \<^verbatim>\<open>Export\<close>,
  without running it.\<close>

text \<open>The call of the layer selector, from the spec: reuse when the materialized digest
  equals the previous one, add otherwise.\<close>

definition spec_addOrReuse :: "Exporter \<Rightarrow> Layer \<Rightarrow> string \<Rightarrow> img_call" where
  "spec_addOrReuse e layer0 previousDigest =
     (let layer = fst (DirLayer (LayerFactory e) (ID layer0) (TarPath layer0))
      in if Digest layer = previousDigest then ImgReuseLayer previousDigest
         else ImgAddLayerWithDiffID (TarPath layer) (Digest layer))"

text \<open>The digest the original image's metadata records for a buildpack layer, empty
  when it has no entry.\<close>

definition originalDigest :: "ExportOptions \<Rightarrow> GroupBuildpack \<Rightarrow> bpLayer \<Rightarrow> string" where
  "originalDigest opts bp fsLayer =
     (case md_Layers (MetadataForBuildpack (OrigMetadata opts) (bp_ID bp)) (l_name fsLayer) of
        None \<Rightarrow> [] | Some m \<Rightarrow> SHA m)"

text \<open>The call for one launch layer of a buildpack, from the spec: the layer selector
  when the layer has contents, a reuse of the original digest when it has none.\<close>

definition spec_buildpack_layer :: "Exporter \<Rightarrow> ExportOptions \<Rightarrow> GroupBuildpack \<Rightarrow> bpLayer \<Rightarrow> img_call" where
  "spec_buildpack_layer e opts bp fsLayer =
     (if hasLocalContents fsLayer
      then spec_addOrReuse e (fst (DirLayer (LayerFactory e) (Identifier fsLayer) (l_path fsLayer)))
             (originalDigest opts bp fsLayer)
      else ImgReuseLayer (originalDigest opts bp fsLayer))"

text \<open>The calls for all buildpacks, in group order.\<close>

definition spec_buildpack_layers :: "Exporter \<Rightarrow> 'r Host \<Rightarrow> ExportOptions \<Rightarrow> img_call list" where
  "spec_buildpack_layers e host opts =
     concat (map (\<lambda>bp. map (spec_buildpack_layer e opts bp)
                          (forLaunch (fst (readBuildpackLayersDir host (LayersDir opts) bp))))
                 (Buildpacks e))"

text \<open>The call for one app slice, from the spec: reuse when some entry of the original
  app metadata has the slice's digest, add otherwise.\<close>

definition spec_slice :: "ExportOptions \<Rightarrow> Layer \<Rightarrow> img_call" where
  "spec_slice opts slice =
     (if Digest slice \<in> set (lm_App (OrigMetadata opts)) then ImgReuseLayer (Digest slice)
      else ImgAddLayerWithDiffID (TarPath slice) (Digest slice))"

text \<open>The calls for the app slices, in slice order.\<close>

definition spec_app_layers :: "Exporter \<Rightarrow> ExportOptions \<Rightarrow> BuildMetadata \<Rightarrow> img_call list" where
  "spec_app_layers e opts buildMD =
     map (spec_slice opts) (fst (SliceLayers (LayerFactory e) (AppDir opts) (Slices buildMD)))"

text \<open>The launcher layer, then the config layer.\<close>

definition spec_launcher_layers :: "Exporter \<Rightarrow> ExportOptions \<Rightarrow> img_call list" where
  "spec_launcher_layers e opts =
     [spec_addOrReuse e (fst (LauncherLayer (LayerFactory e) (LauncherConfig_Path opts)))
        (lm_Launcher (OrigMetadata opts)),
      spec_addOrReuse e (fst (DirLayer (LayerFactory e) ''config'' (Join (LayersDir opts) ''config'')))
        (lm_Config (OrigMetadata opts))]"

text \<open>The process-types layer, only from platform API 0.4 on and with a process.\<close>

definition spec_process_types :: "Exporter \<Rightarrow> ExportOptions \<Rightarrow> BuildMetadata \<Rightarrow> img_call list" where
  "spec_process_types e opts buildMD =
     (if AtLeast (PlatformAPI e) v04 \<and> Processes buildMD \<noteq> []
      then [spec_addOrReuse e (fst (ProcessTypesLayer (LayerFactory e) (Processes buildMD)))
              (lm_ProcessTypes (OrigMetadata opts))]
      else [])"

text \<open>The whole sequence of the spec.\<close>

definition spec_layer_sequence ::
  "Exporter \<Rightarrow> 'r Host \<Rightarrow> ExportOptions \<Rightarrow> BuildMetadata \<Rightarrow> img_call list" where
  "spec_layer_sequence e host opts buildMD =
     spec_buildpack_layers e host opts @ spec_app_layers e opts buildMD
       @ spec_launcher_layers e opts @ spec_process_types e opts buildMD"

section \<open>Example inputs\<close>

text \<open>An encoder that writes the metadata as it is, for metadata that is a string.\<close>

definition enc_id :: "string \<Rightarrow> error + content" where
  "enc_id m = Inr m"

text \<open>A cache root that holds two committed layers, and a tarball outside it.\<close>

definition wit_fs0 :: filesys where
  "wit_fs0 = \<lparr>windows = False, root = True, staging = None,
      committedD = Some [''sha256:A.tar'' \<mapsto> 0, ''sha256:old.tar'' \<mapsto> 1],
      backup = None, outside = [''/tmp/b.tar'' \<mapsto> ''bbbb''],
      inodes = (\<lambda>i. [])(0 := ''aaaa'', 1 := ''oooo''), fresh = 2\<rparr>"

text \<open>The instance and the file system after the construction on that root.\<close>

definition wit_c0 :: VolumeCache where
  "wit_c0 = \<lparr>committed = False, dir = ''/cache''\<rparr>"

definition wit_fs1 :: filesys where
  "wit_fs1 = wit_fs0\<lparr>staging := Some Map.empty\<rparr>"

text \<open>A session that reuses a layer, adds a tarball and sets the metadata, and its
  commit.\<close>

definition wit_ops :: "string cache_op list" where
  "wit_ops = [OpReuseLayer None ''sha256:A'',
              OpAddLayerFile None None None None ''/tmp/b.tar'' ''sha256:B'',
              OpSetMetadata None None ''{}'']"

definition wit_run :: "error option list \<times> cache_world" where
  "wit_run = run_session enc_id wit_ops (wit_c0, wit_fs1)"

definition wit_end :: "error option \<times> cache_world" where
  "wit_end = Commit None None None None (snd wit_run)"

text \<open>A session whose only call is an \<^verbatim>\<open>AddLayer\<close> that breaks after two bytes, and
  its commit.\<close>

definition cex1_ops :: "string cache_op list" where
  "cex1_ops = [OpAddLayer None (Some (2, 5)) ''abcdef'' ''sha256:aa'']"

definition cex1_run :: "error option list \<times> cache_world" where
  "cex1_run = run_session enc_id cex1_ops (wit_c0, wit_fs1)"

definition cex1_end :: "error option \<times> cache_world" where
  "cex1_end = Commit None None None None (snd cex1_run)"

text \<open>A session with one staged file, and a commit whose staging rename and rollback
  both fail.\<close>

definition cex2_fs :: filesys where
  "cex2_fs = wit_fs1\<lparr>staging := Some [''sha256:B.tar'' \<mapsto> 2], fresh := 3\<rparr>"

definition cex2_end :: "error option \<times> cache_world" where
  "cex2_end = Commit None (Some 7) (Some 9) None (wit_c0, cex2_fs)"



text \<open>A decoder that accepts one document only, and a cache whose metadata file holds
  something else.\<close>

definition dec_braces :: "content \<Rightarrow> string option" where
  "dec_braces bs = (if bs = ''{}'' then Some ''decoded'' else None)"

definition wit8_fs :: filesys where
  "wit8_fs = wit_fs0\<lparr>committedD := Some [MetadataLabel \<mapsto> 0]\<rparr>"




text \<open>A layer factory that never fails and derives path and digest from the layer's
  identifier, and an image that accepts every call.\<close>

definition ex_factory :: LayerFactory where
  "ex_factory =
     \<lparr>DirLayer = (\<lambda>i d. (\<lparr>ID = i, TarPath = ''/tmp/'' @ i @ ''.tar'', Digest = ''sha256:'' @ i\<rparr>, None)),
      LauncherLayer = (\<lambda>p. (\<lparr>ID = ''launcher'', TarPath = p, Digest = ''sha256:L''\<rparr>, None)),
      ProcessTypesLayer =
        (\<lambda>ps. (\<lparr>ID = ''process-types'', TarPath = ''/tmp/pt'', Digest = ''sha256:P''\<rparr>, None)),
      SliceLayers =
        (\<lambda>d sl. ([\<lparr>ID = ''slice-1'', TarPath = ''/tmp/s1.tar'', Digest = ''sha256:s1''\<rparr>], None))\<rparr>"

definition ex_image :: Image where
  "ex_image = \<lparr>img_error = (\<lambda>h k. None), img_value = (\<lambda>h k. ''/bin'')\<rparr>"

text \<open>A buildpack with a layer that has contents (\<open>l1\<close>), layers without contents
  that the previous image knows (\<open>l2\<close>) or does not know (\<open>l4\<close>), and a cached
  layer without contents (\<open>l3\<close>).\<close>

definition ex_bp :: GroupBuildpack where
  "ex_bp = \<lparr>bp_ID = ''bp1'', bp_Version = ''1'', bp_API = Some v05\<rparr>"

definition ex_lmd :: BuildpackLayerMetadata where
  "ex_lmd = \<lparr>SHA = [], Data = [], Build = False, Launch = True, Cache = False\<rparr>"

definition ex_l1 :: bpLayer where
  "ex_l1 = \<lparr>Identifier = ''bp1:l1'', l_name = ''l1'', l_path = ''/layers/bp1/l1'',
            l_read = Inr ex_lmd, hasLocalContents = True\<rparr>"

definition ex_l2 :: bpLayer where
  "ex_l2 = \<lparr>Identifier = ''bp1:l2'', l_name = ''l2'', l_path = ''/layers/bp1/l2'',
            l_read = Inr ex_lmd, hasLocalContents = False\<rparr>"

definition ex_l3 :: bpLayer where
  "ex_l3 = \<lparr>Identifier = ''bp1:l3'', l_name = ''l3'', l_path = ''/layers/bp1/l3'',
            l_read = Inr (ex_lmd\<lparr>Cache := True\<rparr>), hasLocalContents = False\<rparr>"

definition ex_l4 :: bpLayer where
  "ex_l4 = \<lparr>Identifier = ''bp1:l4'', l_name = ''l4'', l_path = ''/layers/bp1/l4'',
            l_read = Inr ex_lmd, hasLocalContents = False\<rparr>"

text \<open>Build metadata with one process, a host that reads the given layers for every
  buildpack, a previous image that knows the layer \<open>l2\<close>, and the options and
  exporter built from them.\<close>

definition ex_buildMD :: BuildMetadata where
  "ex_buildMD = \<lparr>Processes = [\<lparr>Type = ''web'', Command = ''run''\<rparr>], Slices = [],
                 Labels = [(''k'', ''v'')], Launcher = [], BuildpackDefaultProcessType = []\<rparr>"

definition ex_host :: "bpLayer list \<Rightarrow> string Host" where
  "ex_host ls =
     \<lparr>Abs = (\<lambda>p. (p, None)),
      DecodeBuildMetadata = (\<lambda>p. (ex_buildMD, None)),
      readBuildpackLayersDir = (\<lambda>d bp. (\<lparr>d_store = None, forLaunch = ls, forMalformed = []\<rparr>, None)),
      MarshalLayers = (\<lambda>m. (''{}'', None)),
      MarshalBuild = (\<lambda>m. (''{}'', None)),
      MarshalProject = (\<lambda>m. (''{}'', None)),
      DecodeBuildTOML = (\<lambda>p. ([], Some ENOENT)),
      VersionString = (\<lambda>v. ''0.5''),
      PathListSeparator = '':'',
      LauncherPath = ''/cnb/lifecycle/launcher'',
      ProcessDir = ''/cnb/process'',
      LifecycleDir = ''/cnb/lifecycle'',
      ProcessPath = (\<lambda>t. ''/cnb/process/'' @ t),
      EscapeID = (\<lambda>i. i),
      ImageReport = (\<lambda>h. ''saved''),
      ZeroManifestSize = (\<lambda>r. r)\<rparr>"

definition ex_orig :: LayersMetadata where
  "ex_orig = emptyLayersMetadata\<lparr>lm_Buildpacks :=
     [\<lparr>md_ID = ''bp1'', md_Version = ''1'',
       md_Layers = [''l2'' \<mapsto> ex_lmd\<lparr>SHA := ''sha256:old2''\<rparr>], md_Store = None\<rparr>]\<rparr>"

definition ex_opts :: ExportOptions where
  "ex_opts = \<lparr>LayersDir = ''/layers'', AppDir = ''/app'', RunImageRef = ''run'',
               OrigMetadata = ex_orig, AdditionalNames = [], LauncherConfig_Path = ''/tmp/launcher'',
               LauncherConfig_Metadata = [], Stack = [], Project = [], DefaultProcessType = []\<rparr>"

definition ex_exporter :: Exporter where
  "ex_exporter = \<lparr>Buildpacks = [ex_bp], LayerFactory = ex_factory, PlatformAPI = v05\<rparr>"

definition ex_s0 :: xstate where
  "ex_s0 = \<lparr>calls = [], logs = []\<rparr>"

text \<open>The layer calls expected of the export of \<open>l1\<close> and \<open>l2\<close>.\<close>

definition ex_sequence :: "img_call list" where
  "ex_sequence =
     [ImgAddLayerWithDiffID ''/tmp/bp1:l1.tar'' ''sha256:bp1:l1'',
      ImgReuseLayer ''sha256:old2'',
      ImgAddLayerWithDiffID ''/tmp/s1.tar'' ''sha256:s1'',
      ImgAddLayerWithDiffID ''/tmp/launcher.tar'' ''sha256:launcher'',
      ImgAddLayerWithDiffID ''/tmp/config.tar'' ''sha256:config'',
      ImgAddLayerWithDiffID ''/tmp/process-types.tar'' ''sha256:process-types'']"

text \<open>A launcher layer, what the factory makes of it, and a factory whose layers have
  an empty digest.\<close>

definition ex_l0 :: Layer where
  "ex_l0 = \<lparr>ID = ''launcher'', TarPath = ''/tmp/launcher'', Digest = ''sha256:L''\<rparr>"

definition ex_l0m :: Layer where
  "ex_l0m = \<lparr>ID = ''launcher'', TarPath = ''/tmp/launcher.tar'', Digest = ''sha256:launcher''\<rparr>"

definition cex5_exporter :: Exporter where
  "cex5_exporter =
     ex_exporter\<lparr>LayerFactory := ex_factory\<lparr>DirLayer :=
        (\<lambda>i d. (\<lparr>ID = i, TarPath = d, Digest = []\<rparr>, None))\<rparr>\<rparr>"

text \<open>The exporter at a given platform API, and two processes.\<close>

definition ex_api :: "Version \<Rightarrow> Exporter" where
  "ex_api v = ex_exporter\<lparr>PlatformAPI := v\<rparr>"

definition ex_web :: Process where
  "ex_web = \<lparr>Type = ''web'', Command = ''run''\<rparr>"

definition ex_worker :: Process where
  "ex_worker = \<lparr>Type = ''worker'', Command = ''work''\<rparr>"

text \<open>The state after the top layer was read, the metadata the export starts with, and
  the state after the layer \<open>l1\<close> was exported.\<close>

definition ex_s1 :: xstate where
  "ex_s1 = \<lparr>calls = [ImgTopLayer], logs = []\<rparr>"

definition ex_meta0 :: LayersMetadata where
  "ex_meta0 = emptyLayersMetadata\<lparr>lm_RunImage_TopLayer := ''/bin'',
                   lm_RunImage_Reference := ''run'', lm_Stack := []\<rparr>"

definition ex_s3 :: xstate where
  "ex_s3 = snd (addBuildpackLayers_layers ex_exporter ex_image ex_opts ex_bp [ex_l1] Map.empty ex_s1)"

section \<open>Properties of the volume cache\<close>

lemmas prim_defs = os_Stat_def os_Create_def os_Open_def os_Open_outside_def io_Copy_def
  os_Link_def os_Rename_def os_RemoveAll_def os_MkdirAll_def os_Stat_root_def os_Stat_dir_def





















lemma NewVolumeCache_ok:
  assumes "NewVolumeCache f1 f2 f3 f4 f5 dr fs0 = (Inr c0, fs1)"
  shows "\<not> committed c0 \<and> staging fs1 = Some Map.empty \<and> backup fs1 = None
       \<and> committedD fs1 \<noteq> None \<and> windows fs1 = windows fs0 \<and> inodes fs1 = inodes fs0"
  using assms
  by (auto simp: NewVolumeCache_def setupStagingDir_def prim_defs Let_def
           split: option.splits sum.splits prod.splits if_splits)







lemmas ex_defs = enc_id_def wit_fs0_def wit_c0_def wit_fs1_def wit_ops_def wit_run_def wit_end_def
  cex1_ops_def cex1_run_def cex1_end_def






lemma os_Rename_dirs:
  "os_Rename f old new fs = (r, fs') \<Longrightarrow>
     inodes fs' = inodes fs \<and> outside fs' = outside fs \<and> windows fs' = windows fs \<and> root fs' = root fs
     \<and> (r \<noteq> None \<longrightarrow> fs' = fs)"
  by (cases old; cases new) (auto simp: os_Rename_def split: option.splits)

text \<open>
  Claim C2, as the code has it. When the backup rename has succeeded and the rename
  of \<^verbatim>\<open>staging/\<close> fails, \<^verbatim>\<open>Commit\<close> renames the backup back. If that succeeds, the
  error is the failure of the staging rename, wrapped as "committing cache", and
  \<^verbatim>\<open>committed/\<close> is the prior generation again. If the rollback fails, its own error
  is reported, wrapped as "rolling back cache", and \<^verbatim>\<open>committed/\<close> does not exist;
  the deferred removal of the backup directory still runs, so the backup stays only
  when that removal fails too. In every case \<^verbatim>\<open>staging/\<close> is untouched, the instance
  is committed, and a later successful construction leaves no backup directory.
\<close>

theorem commit_rollback:
  assumes nc: "\<not> committed c"
      and r1: "os_Rename f_backup Committed Backup fs = (None, fs1)"
      and r2: "os_Rename f_stage Staging Committed fs1 = (Some err1, fs2)"
      and r3: "os_Rename f_rollback Backup Committed fs2 = (r, fs3)"
      and cm: "Commit f_backup f_stage f_rollback f_remove (c, fs) = (res, c', fs')"
  shows "(r = None \<longrightarrow> res = Some (Wrap (Sys err1) ''committing cache'' [])
            \<and> committedD fs' = committedD fs \<and> backup fs' = None)
       \<and> (\<forall>err2. r = Some err2 \<longrightarrow> res = Some (Wrap (Sys err2) ''rolling back cache'' [])
            \<and> committedD fs' = None
            \<and> backup fs' = (if f_remove = None then None else committedD fs))
       \<and> staging fs' = staging fs \<and> committed c'
       \<and> (\<forall>c2 fs''. NewVolumeCache n1 n2 n3 n4 n5 dr fs' = (Inr c2, fs'') \<longrightarrow> backup fs'' = None)"
proof -
  from r1 have a: "committedD fs1 = None" "backup fs1 = committedD fs" "staging fs1 = staging fs"
      "committedD fs \<noteq> None"
    by (auto simp: os_Rename_def split: option.splits)
  from r2 have b: "fs2 = fs1" using os_Rename_dirs by blast
  have nv: "\<forall>c2 fs''. NewVolumeCache n1 n2 n3 n4 n5 dr fs' = (Inr c2, fs'') \<longrightarrow> backup fs'' = None"
    using NewVolumeCache_ok by blast
  show ?thesis
  proof (cases r)
    case None
    with r3 a b have c: "committedD fs3 = committedD fs" "backup fs3 = None" "staging fs3 = staging fs"
      by (auto simp: os_Rename_def split: option.splits)
    from cm nc r1 r2 r3 None have "res = Some (Wrap (Sys err1) ''committing cache'' [])"
       "c' = c\<lparr>committed := True\<rparr>" "fs' = snd (os_RemoveAll f_remove Backup fs3)"
      by (auto simp: Commit_def Let_def)
    with c nv show ?thesis using None
      by (auto simp: os_RemoveAll_def split: option.splits)
  next
    case (Some err2)
    with r3 have "fs3 = fs2" using os_Rename_dirs by blast
    with a b have c: "committedD fs3 = None" "backup fs3 = committedD fs" "staging fs3 = staging fs"
      by auto
    from cm nc r1 r2 r3 Some have "res = Some (Wrap (Sys err2) ''rolling back cache'' [])"
       "c' = c\<lparr>committed := True\<rparr>" "fs' = snd (os_RemoveAll f_remove Backup fs3)"
      by (auto simp: Commit_def Let_def)
    with c nv show ?thesis using Some
      by (auto simp: os_RemoveAll_def split: option.splits)
  qed
qed

lemmas ex2_defs = cex2_fs_def cex2_end_def

text \<open>
  Claim C2 as stated fails in its last part: with a failing staging rename and a
  failing rollback, \<^verbatim>\<open>Commit\<close> reports the rollback error and has itself removed the
  backup directory, so neither generation is left for the next construction to see.
\<close>

theorem commit_rollback_counterexample:
  "fst cex2_end = Some (Wrap (Sys (EOTHER 9)) ''rolling back cache'' [])
   \<and> backup (snd (snd cex2_end)) = None \<and> committedD (snd (snd cex2_end)) = None"
  by (simp add: ex_defs ex2_defs Commit_def prim_defs)

text \<open>
  The same cache with a removal that fails (the backup stays and holds the prior
  generation), and with a rollback that succeeds.
\<close>

theorem commit_rollback_witness:
  "\<not> committed wit_c0
   \<and> fst (Commit None (Some 7) (Some 9) (Some 3) (wit_c0, cex2_fs))
       = Some (Wrap (Sys (EOTHER 9)) ''rolling back cache'' [])
   \<and> backup (snd (snd (Commit None (Some 7) (Some 9) (Some 3) (wit_c0, cex2_fs)))) = committedD cex2_fs
   \<and> committedD cex2_fs \<noteq> None
   \<and> fst (Commit None (Some 7) None None (wit_c0, cex2_fs))
       = Some (Wrap (Sys (EOTHER 7)) ''committing cache'' [])
   \<and> committedD (snd (snd (Commit None (Some 7) None None (wit_c0, cex2_fs)))) = committedD cex2_fs"
proof -
  let ?fs1 = "cex2_fs\<lparr>backup := committedD cex2_fs, committedD := None\<rparr>"
  let ?fs3 = "?fs1\<lparr>committedD := backup ?fs1, backup := None\<rparr>"
  have nc: "\<not> committed wit_c0" by (simp add: wit_c0_def)
  have r1: "os_Rename None Committed Backup cex2_fs = (None, ?fs1)"
    by (simp add: os_Rename_def ex_defs ex2_defs)
  have r2: "os_Rename (Some 7) Staging Committed ?fs1 = (Some (EOTHER 7), ?fs1)"
    by (simp add: os_Rename_def)
  have r3: "os_Rename (Some 9) Backup Committed ?fs1 = (Some (EOTHER 9), ?fs1)"
    by (simp add: os_Rename_def)
  have r3': "os_Rename None Backup Committed ?fs1 = (None, ?fs3)"
    by (simp add: os_Rename_def ex_defs ex2_defs)
  have cm: "Commit None (Some 7) (Some 9) (Some 3) (wit_c0, cex2_fs)
     = (fst (Commit None (Some 7) (Some 9) (Some 3) (wit_c0, cex2_fs)),
        fst (snd (Commit None (Some 7) (Some 9) (Some 3) (wit_c0, cex2_fs))),
        snd (snd (Commit None (Some 7) (Some 9) (Some 3) (wit_c0, cex2_fs))))" by simp
  have cm': "Commit None (Some 7) None None (wit_c0, cex2_fs)
     = (fst (Commit None (Some 7) None None (wit_c0, cex2_fs)),
        fst (snd (Commit None (Some 7) None None (wit_c0, cex2_fs))),
        snd (snd (Commit None (Some 7) None None (wit_c0, cex2_fs))))" by simp
  have ne: "committedD cex2_fs \<noteq> None" by (simp add: ex_defs ex2_defs)
  note A = commit_rollback[OF nc r1 r2 r3 cm]
  note B = commit_rollback[OF nc r1 r2 r3' cm']
  show ?thesis using nc ne A B by simp
qed

















text \<open>
  Claim C8. \<^verbatim>\<open>RetrieveMetadata\<close> returns the empty record and no error when the
  committed metadata file is absent, and when the file is there but reading or
  decoding it fails; it returns the decoded record otherwise. It returns an error
  exactly when opening the file fails with an error other than "not exist", and the
  error is that failure, wrapped.
\<close>

theorem RetrieveMetadata_empty_or_error:
  "(f_open = None \<and> file_content Committed MetadataLabel fs = None \<longrightarrow>
      RetrieveMetadata decode zero f_open rd (c, fs) = Inr zero)
   \<and> (f_open = None \<and> file_content Committed MetadataLabel fs = Some bs \<and> (rd \<or> decode bs = None) \<longrightarrow>
      RetrieveMetadata decode zero f_open rd (c, fs) = Inr zero)
   \<and> (f_open = None \<and> file_content Committed MetadataLabel fs = Some bs \<and> \<not> rd \<and> decode bs = Some m \<longrightarrow>
      RetrieveMetadata decode zero f_open rd (c, fs) = Inr m)
   \<and> (\<forall>err. RetrieveMetadata decode zero f_open rd (c, fs) = Inl err \<longleftrightarrow>
        (\<exists>e. os_Open f_open Committed MetadataLabel fs = Inl e \<and> \<not> IsNotExist e
           \<and> err = Wrap (Sys e) (''opening metadata file '%s'' @ sq)
                      [S (Join (committedDir c) MetadataLabel)]))"
  by (auto simp: RetrieveMetadata_def os_Open_def IsNotExist_def split: option.splits sum.splits)

text \<open>
  A cache without a metadata file, one whose metadata file does not decode, and one
  whose metadata file cannot be opened.
\<close>

theorem RetrieveMetadata_empty_or_error_witness:
  "file_content Committed MetadataLabel wit_fs0 = None
   \<and> RetrieveMetadata dec_braces ''zero'' None False (wit_c0, wit_fs0) = Inr ''zero''
   \<and> file_content Committed MetadataLabel wit8_fs = Some ''aaaa'' \<and> dec_braces ''aaaa'' = None
   \<and> RetrieveMetadata dec_braces ''zero'' None False (wit_c0, wit8_fs) = Inr ''zero''
   \<and> os_Open (Some 5) Committed MetadataLabel wit8_fs = Inl (EOTHER 5) \<and> \<not> IsNotExist (EOTHER 5)
   \<and> RetrieveMetadata dec_braces ''zero'' (Some 5) False (wit_c0, wit8_fs)
        = Inl (Wrap (Sys (EOTHER 5)) (''opening metadata file '%s'' @ sq)
                      [S (Join (committedDir wit_c0) MetadataLabel)])"
proof -
  have a: "file_content Committed MetadataLabel wit_fs0 = None"
    by (simp add: file_content_def wit_fs0_def MetadataLabel_def)
  have b: "file_content Committed MetadataLabel wit8_fs = Some ''aaaa''" "dec_braces ''aaaa'' = None"
    by (simp_all add: file_content_def wit8_fs_def wit_fs0_def dec_braces_def)
  have o: "os_Open (Some 5) Committed MetadataLabel wit8_fs = Inl (EOTHER 5)" "\<not> IsNotExist (EOTHER 5)"
    by (simp_all add: os_Open_def IsNotExist_def)
  note A = RetrieveMetadata_empty_or_error[where f_open = None and fs = wit_fs0 and decode = dec_braces
      and zero = "''zero''" and rd = False and c = wit_c0]
  note B = RetrieveMetadata_empty_or_error[where f_open = None and fs = wit8_fs and decode = dec_braces
      and zero = "''zero''" and rd = False and c = wit_c0 and bs = "''aaaa''"]
  note C = RetrieveMetadata_empty_or_error[where f_open = "Some 5" and fs = wit8_fs and decode = dec_braces
      and zero = "''zero''" and rd = False and c = wit_c0]
  have 1: "RetrieveMetadata dec_braces ''zero'' None False (wit_c0, wit_fs0) = Inr ''zero''"
    using A a by blast
  have 2: "RetrieveMetadata dec_braces ''zero'' None False (wit_c0, wit8_fs) = Inr ''zero''"
    using B b by blast
  have 3: "RetrieveMetadata dec_braces ''zero'' (Some 5) False (wit_c0, wit8_fs)
        = Inl (Wrap (Sys (EOTHER 5)) (''opening metadata file '%s'' @ sq)
                      [S (Join (committedDir wit_c0) MetadataLabel)])"
    using C o by blast
  show ?thesis using a b o 1 2 3 by (simp only: simp_thms)
qed










section \<open>Properties of the exporter\<close>

lemmas exp_defs = Export_def Export_finish_def addBuildpackLayers_def addBuildpackLayers_bp_def
  addBuildpackLayers_layer_def addOrReuseLayer_def addAppLayers_def addLauncherLayers_def
  launcherConfig_def setLabels_def setEnv_def setWorkingDir_def entrypoint_def makeBuildReport_def
  saveImage_def img_def img_get_def logf_def supportsMulticallLauncher_def supportsManifestSize_def
  AtLeast_def LessThan_def v04_def v05_def v06_def MetadataForBuildpack_def FindProcessType_def
  emptyLayersMetadata_def zeroLayerMetadata_def IsNotExist_def WithBuildpack_def Join_def
  processTypeWarning_def processTypeError_def

lemmas exx_defs = ex_factory_def ex_image_def ex_bp_def ex_lmd_def ex_l1_def ex_l2_def ex_l3_def
  ex_buildMD_def ex_host_def ex_orig_def ex_opts_def ex_exporter_def ex_s0_def ex_sequence_def

lemma find_Some_holds: "find P xs = Some x \<Longrightarrow> P x"
  by (induction xs) (auto split: if_splits)

text \<open>
  Claim C7. The entrypoint follows the decision table of the spec, read from top to
  bottom: below platform API 0.4 the launcher path; a user default that exists gives
  its process path; a user default that does not exist gives a warning and the
  launcher path below 0.6 and an error from 0.6 on; without a user default, below 0.6
  and with exactly one process, that process's path; without a user default and with
  a buildpack default, the buildpack default's process path; otherwise the launcher
  path, with the message "no default process type".
\<close>

theorem entrypoint_decision_table:
  "(LessThan (PlatformAPI e) v04 \<longrightarrow>
      entrypoint e host md u b s = (Inr (LauncherPath host), s))
   \<and> (\<forall>p. AtLeast (PlatformAPI e) v04 \<and> u \<noteq> [] \<and> FindProcessType md u = Some p \<longrightarrow>
        Type p = u \<and>
        entrypoint e host md u b s =
          (Inr (ProcessPath host u),
           logf Info (''Setting default process type '%s'' @ sq) [S u] s))
   \<and> (AtLeast (PlatformAPI e) v04 \<and> u \<noteq> [] \<and> FindProcessType md u = None
        \<and> LessThan (PlatformAPI e) v06 \<longrightarrow>
        entrypoint e host md u b s =
          (Inr (LauncherPath host),
           logf Warn (''default process type '%s' not present in list %+v'')
             [S u, SL (map Type md)] s))
   \<and> (AtLeast (PlatformAPI e) v04 \<and> u \<noteq> [] \<and> FindProcessType md u = None
        \<and> AtLeast (PlatformAPI e) v06 \<longrightarrow>
        entrypoint e host md u b s =
          (Inl (Errorf ''tried to set %s to default but it doesn't exist'' [S u]), s))
   \<and> (\<forall>p. AtLeast (PlatformAPI e) v04 \<and> u = [] \<and> LessThan (PlatformAPI e) v06 \<and> md = [p] \<longrightarrow>
        entrypoint e host md u b s =
          (Inr (ProcessPath host (Type p)),
           logf Info (''Setting default process type '%s'' @ sq) [S (Type p)] s))
   \<and> (AtLeast (PlatformAPI e) v04 \<and> u = []
        \<and> \<not> (LessThan (PlatformAPI e) v06 \<and> length md = 1) \<and> b \<noteq> [] \<longrightarrow>
        entrypoint e host md u b s =
          (Inr (ProcessPath host b),
           logf Info (''Setting default process type '%s'' @ sq) [S b] s))
   \<and> (AtLeast (PlatformAPI e) v04 \<and> u = []
        \<and> \<not> (LessThan (PlatformAPI e) v06 \<and> length md = 1) \<and> b = [] \<longrightarrow>
        entrypoint e host md u b s =
          (Inr (LauncherPath host), logf Info ''no default process type'' [] s))"
proof -
  have f: "Type p = u" if "FindProcessType md u = Some p" for p
    using that find_Some_holds[of "\<lambda>p. Type p = u" md p] by (simp add: FindProcessType_def)
  show ?thesis
    by (auto simp: entrypoint_def supportsMulticallLauncher_def AtLeast_def processTypeWarning_def
             dest: f)
qed

text \<open>
  One input for each row of the table.
\<close>

theorem entrypoint_decision_table_witness:
  "fst (entrypoint (ex_api \<lparr>Major = 0, Minor = 3\<rparr>) (ex_host []) [ex_web] ''web'' [] ex_s0)
     = Inr ''/cnb/lifecycle/launcher''
   \<and> fst (entrypoint (ex_api v06) (ex_host []) [ex_web, ex_worker] ''worker'' [] ex_s0)
     = Inr ''/cnb/process/worker''
   \<and> entrypoint (ex_api v05) (ex_host []) [ex_web] ''bogus'' [] ex_s0
     = (Inr ''/cnb/lifecycle/launcher'',
        logf Warn ''default process type '%s' not present in list %+v'' [S ''bogus'', SL [''web'']] ex_s0)
   \<and> fst (entrypoint (ex_api v06) (ex_host []) [ex_web] ''bogus'' [] ex_s0)
     = Inl (Errorf ''tried to set %s to default but it doesn't exist'' [S ''bogus''])
   \<and> fst (entrypoint (ex_api v05) (ex_host []) [ex_web] [] ''worker'' ex_s0)
     = Inr ''/cnb/process/web''
   \<and> fst (entrypoint (ex_api v06) (ex_host []) [ex_web] [] ''worker'' ex_s0)
     = Inr ''/cnb/process/worker''
   \<and> fst (entrypoint (ex_api v06) (ex_host []) [ex_web] [] [] ex_s0)
     = Inr ''/cnb/lifecycle/launcher''"
proof -
  note ev = ex_api_def ex_exporter_def ex_host_def ex_web_def ex_worker_def
     AtLeast_def LessThan_def v04_def v05_def v06_def FindProcessType_def
  note T1 = entrypoint_decision_table[where e = "ex_api \<lparr>Major = 0, Minor = 3\<rparr>" and host = "ex_host []"
     and md = "[ex_web]" and u = "''web''" and b = "[]" and s = ex_s0]
  note T2 = entrypoint_decision_table[where e = "ex_api v06" and host = "ex_host []"
     and md = "[ex_web, ex_worker]" and u = "''worker''" and b = "[]" and s = ex_s0]
  note T3 = entrypoint_decision_table[where e = "ex_api v05" and host = "ex_host []"
     and md = "[ex_web]" and u = "''bogus''" and b = "[]" and s = ex_s0]
  note T4 = entrypoint_decision_table[where e = "ex_api v06" and host = "ex_host []"
     and md = "[ex_web]" and u = "''bogus''" and b = "[]" and s = ex_s0]
  note T5 = entrypoint_decision_table[where e = "ex_api v05" and host = "ex_host []"
     and md = "[ex_web]" and u = "[]" and b = "''worker''" and s = ex_s0]
  note T6 = entrypoint_decision_table[where e = "ex_api v06" and host = "ex_host []"
     and md = "[ex_web]" and u = "[]" and b = "''worker''" and s = ex_s0]
  note T7 = entrypoint_decision_table[where e = "ex_api v06" and host = "ex_host []"
     and md = "[ex_web]" and u = "[]" and b = "[]" and s = ex_s0]
  have 1: "fst (entrypoint (ex_api \<lparr>Major = 0, Minor = 3\<rparr>) (ex_host []) [ex_web] ''web'' [] ex_s0)
     = Inr ''/cnb/lifecycle/launcher''"
    using T1 by (simp add: ev)
  have 2: "fst (entrypoint (ex_api v06) (ex_host []) [ex_web, ex_worker] ''worker'' [] ex_s0)
     = Inr ''/cnb/process/worker''"
    using T2 by (simp add: ev)
  have 3: "entrypoint (ex_api v05) (ex_host []) [ex_web] ''bogus'' [] ex_s0
     = (Inr ''/cnb/lifecycle/launcher'',
        logf Warn ''default process type '%s' not present in list %+v'' [S ''bogus'', SL [''web'']] ex_s0)"
    using T3 by (simp add: ev)
  have 4: "fst (entrypoint (ex_api v06) (ex_host []) [ex_web] ''bogus'' [] ex_s0)
     = Inl (Errorf ''tried to set %s to default but it doesn't exist'' [S ''bogus''])"
    using T4 by (simp add: ev)
  have 5: "fst (entrypoint (ex_api v05) (ex_host []) [ex_web] [] ''worker'' ex_s0)
     = Inr ''/cnb/process/web''"
    using T5 by (simp add: ev)
  have 6: "fst (entrypoint (ex_api v06) (ex_host []) [ex_web] [] ''worker'' ex_s0)
     = Inr ''/cnb/process/worker''"
    using T6 by (simp add: ev)
  have 7: "fst (entrypoint (ex_api v06) (ex_host []) [ex_web] [] [] ex_s0)
     = Inr ''/cnb/lifecycle/launcher''"
    using T7 by (simp add: ev)
  show ?thesis using 1 2 3 4 5 6 7 by (simp only: simp_thms)
qed

text \<open>
  Claim C5, as the code has it. When the layer factory has materialized the layer
  again: if its digest equals the previous digest, the one call made on the image is
  \<^verbatim>\<open>ReuseLayer\<close> with the previous digest, and that digest is returned with the call's
  error; otherwise the one call is \<^verbatim>\<open>AddLayerWithDiffID\<close> with the new tar path and
  digest, and the new digest is returned. Only the equality of the two digest strings
  decides. An empty previous digest gives the add branch whenever the new digest is
  not empty.
\<close>

theorem addOrReuseLayer_by_digest:
  assumes "DirLayer (LayerFactory e) (ID layer0) (TarPath layer0) = (layer, None)"
  shows "(Digest layer = previousSHA \<longrightarrow>
            calls (snd (addOrReuseLayer e workingImage layer0 previousSHA s))
              = calls s @ [ImgReuseLayer previousSHA]
            \<and> fst (addOrReuseLayer e workingImage layer0 previousSHA s)
              = (previousSHA, img_error workingImage (calls s) (ImgReuseLayer previousSHA)))
       \<and> (Digest layer \<noteq> previousSHA \<longrightarrow>
            calls (snd (addOrReuseLayer e workingImage layer0 previousSHA s))
              = calls s @ [ImgAddLayerWithDiffID (TarPath layer) (Digest layer)]
            \<and> fst (addOrReuseLayer e workingImage layer0 previousSHA s)
              = (Digest layer,
                 img_error workingImage (calls s) (ImgAddLayerWithDiffID (TarPath layer) (Digest layer))))
       \<and> (previousSHA = [] \<and> Digest layer \<noteq> [] \<longrightarrow>
            calls (snd (addOrReuseLayer e workingImage layer0 previousSHA s))
              = calls s @ [ImgAddLayerWithDiffID (TarPath layer) (Digest layer)])"
  using assms by (auto simp: addOrReuseLayer_def img_def logf_def)

text \<open>
  A launcher layer with its own digest as the previous one, with another previous
  digest, and with none.
\<close>

theorem addOrReuseLayer_by_digest_witness:
  "DirLayer (LayerFactory ex_exporter) (ID ex_l0) (TarPath ex_l0) = (ex_l0m, None)
   \<and> addOrReuseLayer ex_exporter ex_image ex_l0 ''sha256:launcher'' ex_s0
       = ((''sha256:launcher'', None), snd (addOrReuseLayer ex_exporter ex_image ex_l0 ''sha256:launcher'' ex_s0))
   \<and> calls (snd (addOrReuseLayer ex_exporter ex_image ex_l0 ''sha256:launcher'' ex_s0))
       = [ImgReuseLayer ''sha256:launcher'']
   \<and> calls (snd (addOrReuseLayer ex_exporter ex_image ex_l0 ''sha256:other'' ex_s0))
       = [ImgAddLayerWithDiffID ''/tmp/launcher.tar'' ''sha256:launcher'']
   \<and> calls (snd (addOrReuseLayer ex_exporter ex_image ex_l0 [] ex_s0))
       = [ImgAddLayerWithDiffID ''/tmp/launcher.tar'' ''sha256:launcher'']"
proof -
  have h: "DirLayer (LayerFactory ex_exporter) (ID ex_l0) (TarPath ex_l0) = (ex_l0m, None)"
    by (simp add: ex_exporter_def ex_factory_def ex_l0_def ex_l0m_def)
  have d: "Digest ex_l0m = ''sha256:launcher''" "TarPath ex_l0m = ''/tmp/launcher.tar''"
     "calls ex_s0 = []" "img_error ex_image [] k = None" for k
    by (simp_all add: ex_l0m_def ex_s0_def ex_image_def)
  note A = addOrReuseLayer_by_digest[OF h, where previousSHA = "''sha256:launcher''"
              and workingImage = ex_image and s = ex_s0]
  note B = addOrReuseLayer_by_digest[OF h, where previousSHA = "''sha256:other''"
              and workingImage = ex_image and s = ex_s0]
  note C = addOrReuseLayer_by_digest[OF h, where previousSHA = "[]"
              and workingImage = ex_image and s = ex_s0]
  have a: "addOrReuseLayer ex_exporter ex_image ex_l0 ''sha256:launcher'' ex_s0
       = ((''sha256:launcher'', None), snd (addOrReuseLayer ex_exporter ex_image ex_l0 ''sha256:launcher'' ex_s0))"
      "calls (snd (addOrReuseLayer ex_exporter ex_image ex_l0 ''sha256:launcher'' ex_s0))
       = [ImgReuseLayer ''sha256:launcher'']"
    using A by (simp_all add: d prod_eq_iff)
  have b: "calls (snd (addOrReuseLayer ex_exporter ex_image ex_l0 ''sha256:other'' ex_s0))
       = [ImgAddLayerWithDiffID ''/tmp/launcher.tar'' ''sha256:launcher'']"
    using B by (simp add: d)
  have c: "calls (snd (addOrReuseLayer ex_exporter ex_image ex_l0 [] ex_s0))
       = [ImgAddLayerWithDiffID ''/tmp/launcher.tar'' ''sha256:launcher'']"
    using C by (simp add: d)
  show ?thesis using h a b c by (simp only: simp_thms)
qed

text \<open>
  Claim C5 as stated fails in its last part: with a factory whose layers have an
  empty digest, an empty previous digest gives \<^verbatim>\<open>ReuseLayer\<close> of the empty digest.
\<close>

theorem addOrReuseLayer_empty_digest_counterexample:
  "addOrReuseLayer cex5_exporter ex_image ex_l0 [] ex_s0
     = (([], None), ex_s0\<lparr>calls := [ImgReuseLayer []],
          logs := [(Info, ''Reusing layer '%s'\<newline>'', [S ''launcher'']),
                   (Debug, ''Layer '%s' SHA: %s\<newline>'', [S ''launcher'', S []])]\<rparr>)"
  by (simp add: addOrReuseLayer_def cex5_exporter_def ex_exporter_def ex_factory_def ex_image_def
        ex_l0_def ex_s0_def img_def logf_def)

lemma quiet_refl: "quiet s s"
  by (simp add: quiet_def layer_calls_def)

lemma quiet_trans: "quiet a b \<Longrightarrow> quiet b c \<Longrightarrow> quiet a c"
  by (auto simp: quiet_def layer_calls_def)

lemma quiet_logf: "quiet s (logf lv f a s)"
  by (simp add: quiet_def logf_def layer_calls_def)

lemma quiet_img:
  assumes "\<not> is_layer_call k" "img workingImage k s = (r, s')"
  shows "quiet s s'"
  using assms by (auto simp: quiet_def img_def layer_calls_def)

lemma quiet_img_get:
  assumes "\<not> is_layer_call k" "img_get workingImage k s = (r, s')"
  shows "quiet s s'"
  using assms by (auto simp: quiet_def img_get_def layer_calls_def)

lemma quiet_layer_calls: "quiet s s' \<Longrightarrow> layer_calls (calls s') = layer_calls (calls s)"
  by (auto simp: quiet_def layer_calls_def)

lemma nl [simp]:
  "\<not> is_layer_call (ImgSetLabel a b)" "\<not> is_layer_call (ImgSetEnv a b)" "\<not> is_layer_call (ImgEnv a)"
  "\<not> is_layer_call (ImgSetEntrypoint a)" "\<not> is_layer_call ImgSetCmd" "\<not> is_layer_call (ImgSetWorkingDir a)"
  "\<not> is_layer_call (ImgSave ns)" "\<not> is_layer_call ImgTopLayer"
  by (simp_all add: is_layer_call_def)

lemma calls_logf [simp]: "calls (logf lv f a s) = calls s"
  by (simp add: logf_def)

lemma img_calls: "img workingImage k s = (r, s') \<Longrightarrow> calls s' = calls s @ [k]"
  by (auto simp: img_def)

lemma addOrReuseLayer_calls:
  assumes "addOrReuseLayer e workingImage layer0 prev s = ((sha, None), s')"
  shows "calls s' = calls s @ [spec_addOrReuse e layer0 prev]"
  using assms
  by (auto simp: addOrReuseLayer_def spec_addOrReuse_def img_def Let_def
           split: prod.splits option.splits if_splits)

lemma layer_step_calls:
  assumes "addBuildpackLayers_layer e workingImage opts bp fsLayer layers s = (Inr m, s')"
  shows "calls s' = calls s @ [spec_buildpack_layer e opts bp fsLayer]"
proof (cases "hasLocalContents fsLayer")
  case True
  with assms obtain lmd layer sha where
    "addOrReuseLayer e workingImage layer (originalDigest opts bp fsLayer) s = ((sha, None), s')"
    "DirLayer (LayerFactory e) (Identifier fsLayer) (l_path fsLayer) = (layer, None)"
    by (auto simp: addBuildpackLayers_layer_def originalDigest_def Let_def zeroLayerMetadata_def
             split: sum.splits prod.splits option.splits)
  with addOrReuseLayer_calls True show ?thesis
    by (simp add: spec_buildpack_layer_def)
next
  case False
  with assms show ?thesis
    by (auto simp: addBuildpackLayers_layer_def originalDigest_def spec_buildpack_layer_def img_def
             split: sum.splits prod.splits option.splits if_splits)
qed

lemma layers_loop_calls:
  "addBuildpackLayers_layers e workingImage opts bp ls layers s = (Inr m, s') \<Longrightarrow>
   calls s' = calls s @ map (spec_buildpack_layer e opts bp) ls"
proof (induction ls arbitrary: layers s)
  case Nil
  then show ?case by simp
next
  case (Cons l ls)
  from Cons.prems obtain m1 s1 where
    a: "addBuildpackLayers_layer e workingImage opts bp l layers s = (Inr m1, s1)"
    and b: "addBuildpackLayers_layers e workingImage opts bp ls m1 s1 = (Inr m, s')"
    by (auto split: prod.splits sum.splits)
  from layer_step_calls[OF a] Cons.IH[OF b] show ?case by simp
qed

lemma bp_step_calls:
  assumes "addBuildpackLayers_bp e workingImage host opts bp meta s = (Inr meta', s')"
  shows "calls s' = calls s @ map (spec_buildpack_layer e opts bp)
                               (forLaunch (fst (readBuildpackLayersDir host (LayersDir opts) bp)))"
proof -
  from assms obtain bpDir m where
    "readBuildpackLayersDir host (LayersDir opts) bp = (bpDir, None)"
    "addBuildpackLayers_layers e workingImage opts bp (forLaunch bpDir) Map.empty s = (Inr m, s')"
    by (auto simp: addBuildpackLayers_bp_def Let_def split: prod.splits sum.splits option.splits if_splits)
  with layers_loop_calls show ?thesis by fastforce
qed

lemma bp_loop_calls:
  "addBuildpackLayers_loop e workingImage host opts bps meta s = (Inr meta', s') \<Longrightarrow>
   calls s' = calls s @ concat (map (\<lambda>bp. map (spec_buildpack_layer e opts bp)
                          (forLaunch (fst (readBuildpackLayersDir host (LayersDir opts) bp)))) bps)"
proof (induction bps arbitrary: meta s)
  case Nil
  then show ?case by simp
next
  case (Cons bp bps)
  from Cons.prems obtain m1 s1 where
    a: "addBuildpackLayers_bp e workingImage host opts bp meta s = (Inr m1, s1)"
    and b: "addBuildpackLayers_loop e workingImage host opts bps m1 s1 = (Inr meta', s')"
    by (auto split: prod.splits sum.splits)
  from bp_step_calls[OF a] Cons.IH[OF b] show ?case by simp
qed

lemma addBuildpackLayers_calls:
  assumes "addBuildpackLayers e workingImage host opts meta s = (Inr meta', s')"
  shows "calls s' = calls s @ spec_buildpack_layers e host opts"
  using assms bp_loop_calls by (simp add: addBuildpackLayers_def spec_buildpack_layers_def)

lemma app_loop_calls:
  "addAppLayers_loop workingImage opts ls n meta s = (Inr r, s') \<Longrightarrow>
   calls s' = calls s @ map (spec_slice opts) ls"
proof (induction ls arbitrary: n meta s)
  case Nil
  then show ?case by simp
next
  case (Cons l ls)
  let ?found = "list_ex (\<lambda>previous. Digest l = previous) (lm_App (OrigMetadata opts))"
  let ?k = "if ?found then ImgReuseLayer (Digest l) else ImgAddLayerWithDiffID (TarPath l) (Digest l)"
  have k: "?k = spec_slice opts l" by (auto simp: spec_slice_def list_ex_iff)
  obtain r1 s1 where i: "img workingImage ?k s = (r1, s1)" by (metis prod.exhaust)
  from Cons.prems i have r1: "r1 = None" by (auto simp: Let_def split: option.splits if_splits)
  from Cons.prems i r1 obtain n1 m1 where
    b: "addAppLayers_loop workingImage opts ls n1 m1
          (logf Debug ''Layer '%s' SHA: %s\<newline>'' [S (ID l), S (Digest l)] s1) = (Inr r, s')"
    by (auto simp: Let_def split: if_splits)
  from Cons.IH[OF b] img_calls[OF i] show ?case by (simp add: k)
qed

lemma addAppLayers_calls:
  assumes "addAppLayers e workingImage opts (Slices buildMD) meta s = (Inr meta', s')"
  shows "calls s' = calls s @ spec_app_layers e opts buildMD"
proof -
  from assms obtain ls n m1 s1 where
    a: "SliceLayers (LayerFactory e) (AppDir opts) (Slices buildMD) = (ls, None)"
    and b: "addAppLayers_loop workingImage opts ls 0 meta s = (Inr (n, m1), s1)"
    and c: "calls s' = calls s1"
    by (auto simp: addAppLayers_def Let_def split: prod.splits sum.splits option.splits if_splits)
  from app_loop_calls[OF b] a c show ?thesis by (simp add: spec_app_layers_def)
qed

lemma launcherConfig_calls:
  assumes "launcherConfig e workingImage opts buildMD meta s = (Inr meta', s')"
  shows "calls s' = calls s @ spec_process_types e opts buildMD"
proof (cases "AtLeast (PlatformAPI e) v04 \<and> Processes buildMD \<noteq> []")
  case True
  with assms obtain ptl sha where
    "ProcessTypesLayer (LayerFactory e) (Processes buildMD) = (ptl, None)"
    "addOrReuseLayer e workingImage ptl (lm_ProcessTypes (OrigMetadata opts)) s = ((sha, None), s')"
    by (auto simp: launcherConfig_def supportsMulticallLauncher_def
             split: prod.splits sum.splits option.splits if_splits)
  with addOrReuseLayer_calls True show ?thesis
    by (simp add: spec_process_types_def)
next
  case False
  with assms show ?thesis
    by (auto simp: launcherConfig_def supportsMulticallLauncher_def spec_process_types_def
             split: if_splits)
qed

lemma addLauncherLayers_calls:
  assumes "addLauncherLayers e workingImage opts buildMD meta s = (Inr meta', s')"
  shows "calls s' = calls s @ spec_launcher_layers e opts @ spec_process_types e opts buildMD"
proof -
  from assms obtain ll sha s1 cl sha2 s2 m2 where
    a: "LauncherLayer (LayerFactory e) (LauncherConfig_Path opts) = (ll, None)"
    and b: "addOrReuseLayer e workingImage ll (lm_Launcher (OrigMetadata opts)) s = ((sha, None), s1)"
    and c: "DirLayer (LayerFactory e) ''config'' (Join (LayersDir opts) ''config'') = (cl, None)"
    and d: "addOrReuseLayer e workingImage cl (lm_Config (OrigMetadata opts)) s1 = ((sha2, None), s2)"
    and f: "launcherConfig e workingImage opts buildMD m2 s2 = (Inr meta', s')"
    by (auto simp: addLauncherLayers_def split: prod.splits sum.splits option.splits)
  from addOrReuseLayer_calls[OF b] addOrReuseLayer_calls[OF d] launcherConfig_calls[OF f] a c
  show ?thesis by (simp add: spec_launcher_layers_def)
qed

lemma setLabels_loop_quiet: "setLabels_loop workingImage ls s = (r, s') \<Longrightarrow> quiet s s'"
proof (induction ls arbitrary: s)
  case Nil
  then show ?case by (simp add: quiet_refl)
next
  case (Cons kv ls)
  obtain key val where kv: "kv = (key, val)" by (cases kv)
  obtain r1 s1 where i: "img workingImage (ImgSetLabel key val)
       (logf Info (''Adding label '%s'' @ sq) [S key] s) = (r1, s1)" by (metis prod.exhaust)
  have q1: "quiet s s1"
    by (rule quiet_trans[OF quiet_logf quiet_img[OF nl(1) i]])
  show ?case
  proof (cases r1)
    case None
    with Cons.prems kv i have "setLabels_loop workingImage ls s1 = (r, s')" by simp
    from Cons.IH[OF this] q1 show ?thesis by (rule quiet_trans[rotated])
  next
    case (Some err)
    with Cons.prems kv i have "s' = s1" by simp
    with q1 show ?thesis by simp
  qed
qed

lemma setLabels_quiet:
  assumes "setLabels workingImage host opts meta buildMD s = (r, s')"
  shows "quiet s s'"
  using assms
  by (auto simp: setLabels_def img_def logf_def quiet_def layer_calls_def is_layer_call_def Let_def
           split: prod.splits option.splits sum.splits dest!: setLabels_loop_quiet)

lemma setEnv_quiet:
  assumes "setEnv e workingImage host opts launchMD s = (r, s')"
  shows "quiet s s'"
  using assms
  by (auto simp: setEnv_def img_def img_get_def logf_def quiet_def layer_calls_def is_layer_call_def
           split: prod.splits option.splits if_splits)

lemma entrypoint_calls:
  assumes "entrypoint e host launchMD u b s = (r, s')"
  shows "calls s' = calls s"
  using assms
  by (auto simp: entrypoint_def processTypeWarning_def split: if_splits list.splits option.splits)

lemma saveImage_quiet:
  assumes "saveImage workingImage host ns s = (r, s')"
  shows "quiet s s'"
  using assms
  by (auto simp: saveImage_def img_def quiet_def layer_calls_def is_layer_call_def
           split: prod.splits option.splits)

lemma setWorkingDir_quiet:
  assumes "(if c then setWorkingDir workingImage opts (logf lv f a s) else (None, s)) = (r, s')"
  shows "quiet s s'"
  using assms
  by (auto simp: setWorkingDir_def img_def logf_def quiet_def layer_calls_def is_layer_call_def
           split: if_splits)

lemma Export_finish_quiet:
  assumes "Export_finish e workingImage host opts meta buildMD0 s = (r, s')"
  shows "quiet s s'"
proof -
  obtain r1 s1 where a1: "setLabels workingImage host opts meta buildMD0 s = (r1, s1)"
    by (metis prod.exhaust)
  note q1 = setLabels_quiet[OF a1]
  show ?thesis
  proof (cases r1)
    case (Inl err)
    with assms a1 q1 show ?thesis by (simp add: Export_finish_def)
  next
    case (Inr buildMD)
    obtain r2 s2 where a2: "setEnv e workingImage host opts (Processes buildMD) s1 = (r2, s2)"
      by (metis prod.exhaust)
    note q2 = quiet_trans[OF q1 setEnv_quiet[OF a2]]
    show ?thesis
    proof (cases r2)
      case (Some err)
      with assms a1 Inr a2 q2 show ?thesis by (simp add: Export_finish_def)
    next
      case None
      obtain r3 s3 where a3: "(if AtLeast (PlatformAPI e) v06
            then setWorkingDir workingImage opts
                   (logf Debug (''Setting WORKDIR: '%s'' @ sq) [S (AppDir opts)] s2)
            else (None, s2)) = (r3, s3)"
        by (metis prod.exhaust)
      note q3 = quiet_trans[OF q2 setWorkingDir_quiet[OF a3]]
      show ?thesis
      proof (cases r3)
        case (Some err)
        with assms a1 Inr a2 None a3 q3 show ?thesis by (simp add: Export_finish_def)
      next
        case n3: None
        obtain r4 s4 where a4: "entrypoint e host (Processes buildMD) (DefaultProcessType opts)
             (BuildpackDefaultProcessType buildMD) s3 = (r4, s4)"
          by (metis prod.exhaust)
        have q4: "quiet s s4" using q3 entrypoint_calls[OF a4] by (simp add: quiet_def)
        show ?thesis
        proof (cases r4)
          case (Inl err)
          with assms a1 Inr a2 None a3 n3 a4 q4 show ?thesis by (simp add: Export_finish_def)
        next
          case ep: (Inr ep)
          obtain r5 s5 where a5: "img workingImage (ImgSetEntrypoint ep)
             (logf Debug (''Setting ENTRYPOINT: '%s'' @ sq) [S ep] s4) = (r5, s5)"
            by (metis prod.exhaust)
          have q5: "quiet s s5"
            by (rule quiet_trans[OF q4 quiet_trans[OF quiet_logf quiet_img[OF nl(4) a5]]])
          show ?thesis
          proof (cases r5)
            case (Some err)
            with assms a1 Inr a2 None a3 n3 a4 ep a5 q5 show ?thesis by (simp add: Export_finish_def)
          next
            case n5: None
            obtain r6 s6 where a6: "img workingImage ImgSetCmd s5 = (r6, s6)"
              by (metis prod.exhaust)
            have q6: "quiet s s6" by (rule quiet_trans[OF q5 quiet_img[OF nl(5) a6]])
            show ?thesis
            proof (cases r6)
              case (Some err)
              with assms a1 Inr a2 None a3 n3 a4 ep a5 n5 a6 q6 show ?thesis
                by (simp add: Export_finish_def)
            next
              case n6: None
              show ?thesis
              proof (cases "makeBuildReport e host (LayersDir opts)")
                case (Inl err)
                with assms a1 Inr a2 None a3 n3 a4 ep a5 n5 a6 n6 q6 show ?thesis
                  by (simp add: Export_finish_def)
              next
                case br: (Inr build)
                obtain r7 s7 where a7: "saveImage workingImage host (AdditionalNames opts) s6 = (r7, s7)"
                  by (metis prod.exhaust)
                have q7: "quiet s s7" by (rule quiet_trans[OF q6 saveImage_quiet[OF a7]])
                from assms a1 Inr a2 None a3 n3 a4 ep a5 n5 a6 n6 br a7 have "s' = s7"
                  by (auto simp: Export_finish_def split: sum.splits)
                with q7 show ?thesis by simp
              qed
            qed
          qed
        qed
      qed
    qed
  qed
qed

text \<open>
  Claim C4. When \<^verbatim>\<open>Export\<close> succeeds, the add and reuse calls it has made on the
  image, in order, are: one call for each launch layer of each buildpack, in the
  order of the group and, inside a buildpack, of its layer list; one call for each
  app slice, in slice order; the launcher layer; the config layer; and the
  process-types layer when the platform API is at least 0.4 and there is a process.
  \<open>spec_layer_sequence\<close> writes this sequence down from the inputs alone.
\<close>

theorem export_layer_order:
  assumes "Export e workingImage host opts0 s = (Inr report, s')"
  shows "layer_calls (calls s') = layer_calls (calls s)
           @ spec_layer_sequence e host
               (opts0\<lparr>LayersDir := fst (Abs host (LayersDir opts0)),
                      AppDir := fst (Abs host (AppDir opts0))\<rparr>)
               (fst (DecodeBuildMetadata host
                  (Join (Join (fst (Abs host (LayersDir opts0))) ''config'') ''metadata.toml'')))"
proof -
  let ?opts = "opts0\<lparr>LayersDir := fst (Abs host (LayersDir opts0)),
                      AppDir := fst (Abs host (AppDir opts0))\<rparr>"
  let ?bmd = "fst (DecodeBuildMetadata host
                  (Join (Join (fst (Abs host (LayersDir opts0))) ''config'') ''metadata.toml''))"
  from assms obtain topLayer s1 meta meta1 s2 meta2 s3 meta3 s4 where
    t: "img_get workingImage ImgTopLayer s = ((topLayer, None), s1)"
    and a: "addBuildpackLayers e workingImage host ?opts meta s1 = (Inr meta1, s2)"
    and b: "addAppLayers e workingImage ?opts (Slices ?bmd) meta1 s2 = (Inr meta2, s3)"
    and c: "addLauncherLayers e workingImage ?opts ?bmd meta2 s3 = (Inr meta3, s4)"
    and d: "Export_finish e workingImage host ?opts meta3 ?bmd s4 = (Inr report, s')"
    by (auto simp: Export_def Let_def split: prod.splits option.splits sum.splits)
  have 1: "layer_calls (calls s1) = layer_calls (calls s)"
    by (rule quiet_layer_calls[OF quiet_img_get[OF nl(8) t]])
  have 2: "calls s2 = calls s1 @ spec_buildpack_layers e host ?opts"
    by (rule addBuildpackLayers_calls[OF a])
  have 3: "calls s3 = calls s2 @ spec_app_layers e ?opts ?bmd"
    by (rule addAppLayers_calls[OF b])
  have 4: "calls s4 = calls s3 @ spec_launcher_layers e ?opts @ spec_process_types e ?opts ?bmd"
    by (rule addLauncherLayers_calls[OF c])
  have 5: "layer_calls (calls s') = layer_calls (calls s4)"
    by (rule quiet_layer_calls[OF Export_finish_quiet[OF d]])
  have 6: "layer_calls (spec_layer_sequence e host ?opts ?bmd) = spec_layer_sequence e host ?opts ?bmd"
    by (auto simp: layer_calls_def spec_layer_sequence_def spec_buildpack_layers_def
          spec_app_layers_def spec_launcher_layers_def spec_process_types_def
          spec_buildpack_layer_def spec_slice_def spec_addOrReuse_def is_layer_call_def Let_def
          filter_id_conv)
  have "calls s4 = calls s1 @ spec_layer_sequence e host ?opts ?bmd"
    using 2 3 4 by (simp add: spec_layer_sequence_def)
  then have "layer_calls (calls s4) = layer_calls (calls s1) @ layer_calls (spec_layer_sequence e host ?opts ?bmd)"
    by (simp add: layer_calls_def)
  with 1 5 6 show ?thesis by simp
qed

lemma ex_export_ok:
  "fst (Export ex_exporter ex_image (ex_host [ex_l1, ex_l2]) ex_opts ex_s0)
     = Inr \<lparr>rep_Build = [], rep_Image = ''saved''\<rparr>"
  by (simp add: exp_defs exx_defs Let_def)

lemma ex_spec_sequence:
  "spec_layer_sequence ex_exporter (ex_host [ex_l1, ex_l2]) ex_opts ex_buildMD = ex_sequence"
  by (simp add: spec_layer_sequence_def spec_buildpack_layers_def spec_buildpack_layer_def
        spec_addOrReuse_def originalDigest_def spec_app_layers_def spec_slice_def
        spec_launcher_layers_def spec_process_types_def exp_defs exx_defs Let_def)

text \<open>
  An export at platform API 0.5 of one buildpack with a layer that has contents and
  a layer that is reused, one app slice and one process.
\<close>

theorem export_layer_order_witness:
  "fst (Export ex_exporter ex_image (ex_host [ex_l1, ex_l2]) ex_opts ex_s0)
     = Inr \<lparr>rep_Build = [], rep_Image = ''saved''\<rparr>
   \<and> layer_calls (calls (snd (Export ex_exporter ex_image (ex_host [ex_l1, ex_l2]) ex_opts ex_s0)))
     = ex_sequence"
proof -
  let ?R = "Export ex_exporter ex_image (ex_host [ex_l1, ex_l2]) ex_opts ex_s0"
  have h: "?R = (Inr \<lparr>rep_Build = [], rep_Image = ''saved''\<rparr>, snd ?R)"
    using ex_export_ok by (simp add: prod_eq_iff)
  have o: "ex_opts\<lparr>LayersDir := fst (Abs (ex_host [ex_l1, ex_l2]) (LayersDir ex_opts)),
                  AppDir := fst (Abs (ex_host [ex_l1, ex_l2]) (AppDir ex_opts))\<rparr> = ex_opts"
    by (simp add: ex_host_def ex_opts_def)
  have b: "fst (DecodeBuildMetadata (ex_host [ex_l1, ex_l2])
             (Join (Join (fst (Abs (ex_host [ex_l1, ex_l2]) (LayersDir ex_opts))) ''config'')
                ''metadata.toml'')) = ex_buildMD"
    by (simp add: ex_host_def)
  have c: "layer_calls (calls ex_s0) = []" by (simp add: ex_s0_def layer_calls_def)
  from export_layer_order[OF h] show ?thesis
    unfolding o b c ex_spec_sequence using ex_export_ok by simp
qed

lemma layers_loop_append:
  "addBuildpackLayers_layers e workingImage opts bp pre m s = (Inr m1, s1) \<Longrightarrow>
   addBuildpackLayers_layers e workingImage opts bp (pre @ rest) m s
     = addBuildpackLayers_layers e workingImage opts bp rest m1 s1"
  by (induction pre arbitrary: m s) (auto split: prod.splits sum.splits)

lemma bp_loop_append:
  "addBuildpackLayers_loop e workingImage host opts pre meta s = (Inr meta1, s1) \<Longrightarrow>
   addBuildpackLayers_loop e workingImage host opts (pre @ rest) meta s
     = addBuildpackLayers_loop e workingImage host opts rest meta1 s1"
  by (induction pre arbitrary: meta s) (auto split: prod.splits sum.splits)

lemma Export_layer_error:
  assumes absl: "Abs host (LayersDir opts0) = (ld, None)"
      and absa: "Abs host (AppDir opts0) = (ad, None)"
      and opts: "opts = opts0\<lparr>LayersDir := ld, AppDir := ad\<rparr>"
      and top: "img_get workingImage ImgTopLayer s = ((topLayer, None), s1)"
      and dec: "DecodeBuildMetadata host (Join (Join ld ''config'') ''metadata.toml'') = (buildMD, None)"
      and meta0: "meta0 = emptyLayersMetadata\<lparr>lm_RunImage_TopLayer := topLayer,
                   lm_RunImage_Reference := RunImageRef opts, lm_Stack := Stack opts\<rparr>"
      and bps: "Buildpacks e = bpre @ bp # bpost"
      and pre: "addBuildpackLayers_loop e workingImage host opts bpre meta0 s1 = (Inr meta1, s2)"
      and rdir: "readBuildpackLayersDir host ld bp = (bpDir, None)"
      and ls: "forLaunch bpDir = lpre @ fsLayer # lpost"
      and lpre: "addBuildpackLayers_layers e workingImage opts bp lpre Map.empty s2 = (Inr layers, s3)"
      and step: "addBuildpackLayers_layer e workingImage opts bp fsLayer layers s3 = (Inl err, s4)"
  shows "Export e workingImage host opts0 s = (Inl err, s4)"
proof -
  have l: "addBuildpackLayers_layers e workingImage opts bp (forLaunch bpDir) Map.empty s2 = (Inl err, s4)"
    unfolding ls using layers_loop_append[OF lpre, of "fsLayer # lpost"] step by simp
  have ldo: "LayersDir opts = ld" by (simp add: opts)
  have b: "addBuildpackLayers_bp e workingImage host opts bp meta1 s2 = (Inl err, s4)"
    using rdir l by (simp add: addBuildpackLayers_bp_def ldo)
  have "addBuildpackLayers e workingImage host opts meta0 s1 = (Inl err, s4)"
    unfolding addBuildpackLayers_def bps using bp_loop_append[OF pre, of "bp # bpost"] b by simp
  then have "addBuildpackLayers e workingImage host (opts0\<lparr>LayersDir := ld, AppDir := ad\<rparr>)
      (emptyLayersMetadata\<lparr>lm_RunImage_TopLayer := topLayer,
                   lm_RunImage_Reference := RunImageRef opts0, lm_Stack := Stack opts0\<rparr>) s1
      = (Inl err, s4)"
    by (simp add: opts meta0)
  then show ?thesis
    using absl absa top dec by (simp add: Export_def Let_def)
qed

text \<open>
  Claim C6. Let \<^verbatim>\<open>Export\<close> reach a launch layer without local contents whose
  metadata reads: the paths resolve, the top layer and the build metadata are read,
  the buildpacks before its own and the layers before it are exported. If its
  metadata has \<open>cache = true\<close>, the export fails with "layer '<id>' is cache=true but
  has no contents". Otherwise, if the original metadata has no entry for the layer,
  the export fails with "cannot reuse '<id>', previous image has no metadata for
  layer '<id>'". Otherwise \<^verbatim>\<open>ReuseLayer\<close> is called with the original digest; when the
  image accepts the call, the layer's metadata entry is recorded with that digest,
  and when it refuses, the export fails with the wrapped error.
\<close>

theorem reuse_only_layer:
  assumes rd: "l_read fsLayer = Inr lmd" and nc: "\<not> hasLocalContents fsLayer"
      and absl: "Abs host (LayersDir opts0) = (ld, None)"
      and absa: "Abs host (AppDir opts0) = (ad, None)"
      and opts: "opts = opts0\<lparr>LayersDir := ld, AppDir := ad\<rparr>"
      and top: "img_get workingImage ImgTopLayer s = ((topLayer, None), s1)"
      and dec: "DecodeBuildMetadata host (Join (Join ld ''config'') ''metadata.toml'') = (buildMD, None)"
      and meta0: "meta0 = emptyLayersMetadata\<lparr>lm_RunImage_TopLayer := topLayer,
                   lm_RunImage_Reference := RunImageRef opts, lm_Stack := Stack opts\<rparr>"
      and bps: "Buildpacks e = bpre @ bp # bpost"
      and pre: "addBuildpackLayers_loop e workingImage host opts bpre meta0 s1 = (Inr meta1, s2)"
      and rdir: "readBuildpackLayersDir host ld bp = (bpDir, None)"
      and ls: "forLaunch bpDir = lpre @ fsLayer # lpost"
      and lpre: "addBuildpackLayers_layers e workingImage opts bp lpre Map.empty s2 = (Inr layers, s3)"
  shows "(Cache lmd \<longrightarrow>
           Export e workingImage host opts0 s =
             (Inl (Errorf ''layer '%s' is cache=true but has no contents'' [S (Identifier fsLayer)]), s3))
       \<and> (\<not> Cache lmd
            \<and> md_Layers (MetadataForBuildpack (OrigMetadata opts0) (bp_ID bp)) (l_name fsLayer) = None \<longrightarrow>
           Export e workingImage host opts0 s =
             (Inl (Errorf (''cannot reuse '%s', previous image has no metadata for layer '%s'' @ sq)
                     [S (Identifier fsLayer), S (Identifier fsLayer)]), s3))
       \<and> (\<forall>orig. \<not> Cache lmd
            \<and> md_Layers (MetadataForBuildpack (OrigMetadata opts0) (bp_ID bp)) (l_name fsLayer) = Some orig \<longrightarrow>
           calls (snd (addBuildpackLayers_layer e workingImage opts bp fsLayer layers s3))
             = calls s3 @ [ImgReuseLayer (SHA orig)]
           \<and> (img_error workingImage (calls s3) (ImgReuseLayer (SHA orig)) = None \<longrightarrow>
                fst (addBuildpackLayers_layer e workingImage opts bp fsLayer layers s3)
                  = Inr (layers(l_name fsLayer \<mapsto> lmd\<lparr>SHA := SHA orig\<rparr>)))
           \<and> (\<forall>err. img_error workingImage (calls s3) (ImgReuseLayer (SHA orig)) = Some err \<longrightarrow>
                fst (Export e workingImage host opts0 s)
                  = Inl (Wrap err (''reusing layer: '%s'' @ sq) [S (Identifier fsLayer)])))"
proof -
  note E = Export_layer_error[OF absl absa opts top dec meta0 bps pre rdir ls lpre]
  have oo: "OrigMetadata opts = OrigMetadata opts0" by (simp add: opts)
  have 1: "Export e workingImage host opts0 s =
             (Inl (Errorf ''layer '%s' is cache=true but has no contents'' [S (Identifier fsLayer)]), s3)"
    if "Cache lmd"
    by (rule E) (simp add: addBuildpackLayers_layer_def rd nc that)
  have 2: "Export e workingImage host opts0 s =
             (Inl (Errorf (''cannot reuse '%s', previous image has no metadata for layer '%s'' @ sq)
                     [S (Identifier fsLayer), S (Identifier fsLayer)]), s3)"
    if "\<not> Cache lmd" "md_Layers (MetadataForBuildpack (OrigMetadata opts0) (bp_ID bp)) (l_name fsLayer) = None"
    by (rule E) (simp add: addBuildpackLayers_layer_def rd nc that oo)
  have 3: "calls (snd (addBuildpackLayers_layer e workingImage opts bp fsLayer layers s3))
             = calls s3 @ [ImgReuseLayer (SHA orig)]
           \<and> (img_error workingImage (calls s3) (ImgReuseLayer (SHA orig)) = None \<longrightarrow>
                fst (addBuildpackLayers_layer e workingImage opts bp fsLayer layers s3)
                  = Inr (layers(l_name fsLayer \<mapsto> lmd\<lparr>SHA := SHA orig\<rparr>)))"
    if "\<not> Cache lmd" "md_Layers (MetadataForBuildpack (OrigMetadata opts0) (bp_ID bp)) (l_name fsLayer) = Some orig"
    for orig
    using that by (auto simp: addBuildpackLayers_layer_def rd nc oo img_def logf_def split: option.splits)
  have 4: "fst (Export e workingImage host opts0 s)
                  = Inl (Wrap err (''reusing layer: '%s'' @ sq) [S (Identifier fsLayer)])"
    if "\<not> Cache lmd" "md_Layers (MetadataForBuildpack (OrigMetadata opts0) (bp_ID bp)) (l_name fsLayer) = Some orig"
       "img_error workingImage (calls s3) (ImgReuseLayer (SHA orig)) = Some err"
    for orig err
  proof -
    have "\<exists>s4. addBuildpackLayers_layer e workingImage opts bp fsLayer layers s3
         = (Inl (Wrap err (''reusing layer: '%s'' @ sq) [S (Identifier fsLayer)]), s4)"
      using that by (simp add: addBuildpackLayers_layer_def rd nc oo img_def logf_def)
    then obtain s4 where "addBuildpackLayers_layer e workingImage opts bp fsLayer layers s3
         = (Inl (Wrap err (''reusing layer: '%s'' @ sq) [S (Identifier fsLayer)]), s4)" by blast
    from E[OF this] show ?thesis by simp
  qed
  show ?thesis using 1 2 3 4 by blast
qed

text \<open>
  A cached layer without contents after an exported layer, a layer without contents
  that the previous image does not know, and one that it knows.
\<close>

theorem reuse_only_layer_witness:
  "Export ex_exporter ex_image (ex_host [ex_l1, ex_l3]) ex_opts ex_s0
     = (Inl (Errorf ''layer '%s' is cache=true but has no contents'' [S ''bp1:l3'']), ex_s3)
   \<and> calls ex_s3 = [ImgTopLayer, ImgAddLayerWithDiffID ''/tmp/bp1:l1.tar'' ''sha256:bp1:l1'']
   \<and> Export ex_exporter ex_image (ex_host [ex_l4]) ex_opts ex_s0
     = (Inl (Errorf (''cannot reuse '%s', previous image has no metadata for layer '%s'' @ sq)
              [S ''bp1:l4'', S ''bp1:l4'']), ex_s1)
   \<and> calls (snd (addBuildpackLayers_layer ex_exporter ex_image ex_opts ex_bp ex_l2 Map.empty ex_s1))
     = [ImgTopLayer, ImgReuseLayer ''sha256:old2'']
   \<and> fst (addBuildpackLayers_layer ex_exporter ex_image ex_opts ex_bp ex_l2 Map.empty ex_s1)
     = Inr [''l2'' \<mapsto> ex_lmd\<lparr>SHA := ''sha256:old2''\<rparr>]"
proof -
  have o: "ex_opts = ex_opts\<lparr>LayersDir := ''/layers'', AppDir := ''/app''\<rparr>"
    by (simp add: ex_opts_def)
  have absl: "Abs (ex_host ls) (LayersDir ex_opts) = (''/layers'', None)" for ls
    by (simp add: ex_host_def ex_opts_def)
  have absa: "Abs (ex_host ls) (AppDir ex_opts) = (''/app'', None)" for ls
    by (simp add: ex_host_def ex_opts_def)
  have top: "img_get ex_image ImgTopLayer ex_s0 = ((''/bin'', None), ex_s1)"
    by (simp add: img_get_def ex_image_def ex_s0_def ex_s1_def)
  have dec: "DecodeBuildMetadata (ex_host ls) (Join (Join ''/layers'' ''config'') ''metadata.toml'')
       = (ex_buildMD, None)" for ls
    by (simp add: ex_host_def)
  have m0: "ex_meta0 = emptyLayersMetadata\<lparr>lm_RunImage_TopLayer := ''/bin'',
                   lm_RunImage_Reference := RunImageRef ex_opts, lm_Stack := Stack ex_opts\<rparr>"
    by (simp add: ex_meta0_def ex_opts_def)
  have bps: "Buildpacks ex_exporter = [] @ ex_bp # []" by (simp add: ex_exporter_def)
  have pre: "addBuildpackLayers_loop ex_exporter ex_image (ex_host ls) ex_opts [] ex_meta0 ex_s1
       = (Inr ex_meta0, ex_s1)" for ls
    by simp
  have rdir: "readBuildpackLayersDir (ex_host ls) ''/layers'' ex_bp
       = (\<lparr>d_store = None, forLaunch = ls, forMalformed = []\<rparr>, None)" for ls
    by (simp add: ex_host_def)
  have lsA: "forLaunch \<lparr>d_store = None, forLaunch = [ex_l1, ex_l3], forMalformed = []\<rparr>
       = [ex_l1] @ ex_l3 # []" by simp
  have lsB: "forLaunch \<lparr>d_store = None, forLaunch = [ex_l4], forMalformed = []\<rparr>
       = [] @ ex_l4 # []" by simp
  have lsC: "forLaunch \<lparr>d_store = None, forLaunch = [ex_l2], forMalformed = []\<rparr>
       = [] @ ex_l2 # []" by simp
  have lpreA: "addBuildpackLayers_layers ex_exporter ex_image ex_opts ex_bp [ex_l1] Map.empty ex_s1
       = (Inr [''l1'' \<mapsto> ex_lmd\<lparr>SHA := ''sha256:bp1:l1''\<rparr>], ex_s3)"
    by (simp add: ex_s3_def prod_eq_iff exp_defs exx_defs ex_s1_def Let_def)
  have lpre0: "addBuildpackLayers_layers ex_exporter ex_image ex_opts ex_bp [] Map.empty ex_s1
       = (Inr Map.empty, ex_s1)" by simp
  have rd3: "l_read ex_l3 = Inr (ex_lmd\<lparr>Cache := True\<rparr>)" "\<not> hasLocalContents ex_l3"
    by (simp_all add: ex_l3_def)
  have rd4: "l_read ex_l4 = Inr ex_lmd" "\<not> hasLocalContents ex_l4"
    by (simp_all add: ex_l4_def)
  have rd2: "l_read ex_l2 = Inr ex_lmd" "\<not> hasLocalContents ex_l2"
    by (simp_all add: ex_l2_def)
  note A = reuse_only_layer[OF rd3 absl absa o top dec m0 bps pre rdir lsA lpreA]
  note B = reuse_only_layer[OF rd4 absl absa o top dec m0 bps pre rdir lsB lpre0]
  note C = reuse_only_layer[OF rd2 absl absa o top dec m0 bps pre rdir lsC lpre0]
  have c3: "Cache (ex_lmd\<lparr>Cache := True\<rparr>)" "\<not> Cache ex_lmd" by (simp_all add: ex_lmd_def)
  have l4: "md_Layers (MetadataForBuildpack (OrigMetadata ex_opts) (bp_ID ex_bp)) (l_name ex_l4) = None"
    by (simp add: MetadataForBuildpack_def exx_defs ex_l4_def emptyLayersMetadata_def)
  have l2: "md_Layers (MetadataForBuildpack (OrigMetadata ex_opts) (bp_ID ex_bp)) (l_name ex_l2)
       = Some (ex_lmd\<lparr>SHA := ''sha256:old2''\<rparr>)"
    by (simp add: MetadataForBuildpack_def exx_defs emptyLayersMetadata_def)
  have e: "img_error ex_image h k = None" "calls ex_s1 = [ImgTopLayer]" for h k
    by (simp_all add: ex_image_def ex_s1_def)
  have 1: "Export ex_exporter ex_image (ex_host [ex_l1, ex_l3]) ex_opts ex_s0
     = (Inl (Errorf ''layer '%s' is cache=true but has no contents'' [S ''bp1:l3'']), ex_s3)"
    using A c3 by (simp add: ex_l3_def)
  have 2: "Export ex_exporter ex_image (ex_host [ex_l4]) ex_opts ex_s0
     = (Inl (Errorf (''cannot reuse '%s', previous image has no metadata for layer '%s'' @ sq)
              [S ''bp1:l4'', S ''bp1:l4'']), ex_s1)"
    using B c3 l4 by (simp add: ex_l4_def)
  have 3: "calls (snd (addBuildpackLayers_layer ex_exporter ex_image ex_opts ex_bp ex_l2 Map.empty ex_s1))
     = [ImgTopLayer, ImgReuseLayer ''sha256:old2'']"
     "fst (addBuildpackLayers_layer ex_exporter ex_image ex_opts ex_bp ex_l2 Map.empty ex_s1)
     = Inr [''l2'' \<mapsto> ex_lmd\<lparr>SHA := ''sha256:old2''\<rparr>]"
    using C c3 l2 e by (simp_all add: ex_l2_def)
  have 4: "calls ex_s3 = [ImgTopLayer, ImgAddLayerWithDiffID ''/tmp/bp1:l1.tar'' ''sha256:bp1:l1'']"
    by (simp add: ex_s3_def exp_defs exx_defs ex_s1_def Let_def)
  show ?thesis using 1 2 3 4 by (simp only: simp_thms)
qed

end
